theory Spec2Isabelle
  imports Complex_Main "HOL-Library.List_Lexorder" "HOL-Library.Char_ord"
begin

section \<open>Data model\<close>

text \<open>
  A table cell is a number or a string. pandas and Python compare numbers by value
  whatever their dtype (\<open>1 == 1.0\<close>), so a numeric cell carries its value as a real
  and equality of cells is equality of values. Missing values (NaN) are not cells: where
  the code produces one (a label absent from a mapping) the model uses \<open>None\<close>.
\<close>

datatype cell = Num real | Str string

text \<open>
  The order pandas sorts group keys by: numbers by value, strings lexicographically.
  Columns hold one kind of cell; numbers are put before strings to make the order total.
\<close>

instantiation cell :: linorder
begin

fun less_eq_cell :: "cell \<Rightarrow> cell \<Rightarrow> bool" where
  "less_eq_cell (Num a) (Num b) = (a \<le> b)"
| "less_eq_cell (Num a) (Str t) = True"
| "less_eq_cell (Str s) (Num b) = False"
| "less_eq_cell (Str s) (Str t) = (s \<le> t)"

definition less_cell :: "cell \<Rightarrow> cell \<Rightarrow> bool" where
  "less_cell x y = (x \<le> y \<and> \<not> y \<le> x)"

instance
proof
  fix x y z :: cell
  show "(x < y) = (x \<le> y \<and> \<not> y \<le> x)"
    by (simp add: less_cell_def)
  show "x \<le> x"
    by (cases x) simp_all
  show "x \<le> y \<Longrightarrow> y \<le> z \<Longrightarrow> x \<le> z"
    by (cases x; cases y; cases z) auto
  show "x \<le> y \<Longrightarrow> y \<le> x \<Longrightarrow> x = y"
    by (cases x; cases y) auto
  show "x \<le> y \<or> y \<le> x"
    by (cases x; cases y) auto
qed

end

text \<open>
  A DataFrame is its columns in order, each a name and its values; all columns of a
  well-formed frame have the same length and distinct names. \<open>NotDataFrame\<close> stands for
  any Python object that fails \<open>isinstance(data, pd.DataFrame)\<close>.
\<close>

type_synonym frame = "(string \<times> cell list) list"

datatype pyobj = DataFrame frame | NotDataFrame

text \<open>Exceptions, by Python class and message.\<close>

datatype error =
    ValueError string
  | KeyError string
  | TypeError string
  | AttributeError string
  | UnboundLocalError string

text \<open>A row of the segment table built by \<open>find_label_segments\<close>.\<close>

record 'l segment =
  seg_start :: nat
  seg_end :: nat
  seg_duration :: int
  seg_label :: 'l

section \<open>preprocessing.py\<close>

definition windows_to_seconds :: "real \<Rightarrow> real \<Rightarrow> real \<Rightarrow> real" where
  "windows_to_seconds n_windows n_win_size n_win_slide =
     (let n_duration = n_win_size + n_win_slide * (n_windows - 1);
          t_duration = n_duration / 50
      in t_duration)"

text \<open>\<open>np.flatnonzero\<close>: the indices of the true entries, ascending.\<close>

definition flatnonzero :: "bool list \<Rightarrow> nat list" where
  "flatnonzero bs = filter (\<lambda>i. bs ! i) [0..<length bs]"

text \<open>
  \<open>values[:-1] != values[1:]\<close> compares each element with its successor;
  \<open>np.column_stack\<close> pairs the two boundary arrays row by row.
\<close>

definition find_subsegments_indices :: "'a list \<Rightarrow> error + (nat \<times> nat) list" where
  "find_subsegments_indices values =
     (if length values = 0
      then Inl (ValueError ''Segments cannot be extracted from an empty list'')
      else
        let changes = map (\<lambda>i. i + 1)
                        (flatnonzero (map2 (\<noteq>) (butlast values) (tl values)))
        in Inr (zip (0 # changes) (changes @ [length values])))"

text \<open>\<open>Series.unique()\<close>: the distinct values in order of first appearance.\<close>

fun unique :: "'a list \<Rightarrow> 'a list" where
  "unique [] = []"
| "unique (x # xs) = x # unique (filter (\<lambda>y. y \<noteq> x) xs)"

text \<open>A positional slice \<open>xs[s:e]\<close> with \<open>0 \<le> s\<close>; Python clips it to the list.\<close>

definition iloc_rows :: "'a list \<Rightarrow> nat \<Rightarrow> nat \<Rightarrow> 'a list" where
  "iloc_rows xs s e = take (e - s) (drop s xs)"

definition columns :: "frame \<Rightarrow> string list" where
  "columns df = map fst df"

text \<open>\<open>data.columns.get_loc(name)\<close>: the position of the column of that name.\<close>

definition get_loc :: "frame \<Rightarrow> string \<Rightarrow> nat" where
  "get_loc df name = length (takeWhile (\<lambda>c. fst c \<noteq> name) df)"

text \<open>\<open>data[name]\<close>: the values of the column of that name, KeyError if there is none.\<close>

definition getitem :: "frame \<Rightarrow> string \<Rightarrow> error + cell list" where
  "getitem df name = (case map_of df name of None \<Rightarrow> Inl (KeyError name) | Some v \<Rightarrow> Inr v)"

text \<open>The loop of \<open>get_segment_label\<close> over the segments, on the selected column.\<close>

fun segment_labels :: "'a list \<Rightarrow> (nat \<times> nat) list \<Rightarrow> 'a list" where
  "segment_labels col [] = []"
| "segment_labels col (segment # segments) =
     (let sel_label = iloc_rows col (fst segment) (snd segment)
      in if length sel_label \<noteq> 0
         then hd (unique sel_label) # segment_labels col segments
         else segment_labels col segments)"

text \<open>
  \<open>segments\<close> is always a list here, so the \<open>iter(segments)\<close> check cannot fail.
\<close>

definition get_segment_label :: "pyobj \<Rightarrow> (nat \<times> nat) list \<Rightarrow> string \<Rightarrow> error + cell list" where
  "get_segment_label data segments label_column =
     (case data of
        NotDataFrame \<Rightarrow> Inl (ValueError ''Input data type is not appropriate.'')
      | DataFrame df \<Rightarrow>
          if label_column \<notin> set (columns df)
          then Inl (ValueError ''Target column not found in DataFrame'')
          else Inr (segment_labels (snd (df ! get_loc df label_column)) segments))"

text \<open>
  The message of the length check is an f-string with both lengths; the model keeps its
  fixed part.
\<close>

definition find_label_segments :: "pyobj \<Rightarrow> string \<Rightarrow> error + cell segment list" where
  "find_label_segments data label_column =
     (case data of
        NotDataFrame \<Rightarrow> Inl (ValueError ''Input type is not appropriate.'')
      | DataFrame df \<Rightarrow>
          if label_column \<notin> set (columns df)
          then Inl (ValueError ''Target column not found in DataFrame'')
          else
            (case getitem df label_column of
               Inl e \<Rightarrow> Inl e
             | Inr col \<Rightarrow>
                 (case find_subsegments_indices col of
                    Inl e \<Rightarrow> Inl e
                  | Inr segments \<Rightarrow>
                      (case get_segment_label data segments label_column of
                         Inl e \<Rightarrow> Inl e
                       | Inr labels \<Rightarrow>
                           if length labels \<noteq> length segments
                           then Inl (ValueError ''Length mismatch between segments and labels'')
                           else Inr (map2 (\<lambda>seg l. \<lparr>seg_start = fst seg, seg_end = snd seg,
                                                     seg_duration = int (snd seg) - int (fst seg),
                                                     seg_label = l\<rparr>)
                                      segments labels)))))"

text \<open>
  The array \<open>changes\<close> of \<open>find_subsegments_indices\<close>, on its own: the positions
  whose value differs from the one before.
\<close>

definition changes_of :: "'a list \<Rightarrow> nat list" where
  "changes_of values =
     map (\<lambda>i. i + 1) (flatnonzero (map2 (\<noteq>) (butlast values) (tl values)))"

section \<open>Label mappings and grouping by label\<close>

text \<open>
  A label mapping is a Python dict, kept in insertion order: \<open>mapping.values()\<close> is the
  list of its values and a lookup finds the value of the key (keys of a dict are distinct).
\<close>

type_synonym mapping = "(cell \<times> cell) list"

definition dict_values :: "mapping \<Rightarrow> cell list" where
  "dict_values m = map snd m"

definition relabel :: "('a \<Rightarrow> 'b) \<Rightarrow> 'a segment \<Rightarrow> 'b segment" where
  "relabel f s = \<lparr>seg_start = seg_start s, seg_end = seg_end s,
                  seg_duration = seg_duration s, seg_label = f (seg_label s)\<rparr>"

text \<open>
  \<open>segments["label"].map(mapping)\<close>: a label that is no key of the dict becomes NaN,
  here \<open>None\<close>. Without a mapping every label is kept.
\<close>

definition map_labels :: "mapping option \<Rightarrow> cell segment list \<Rightarrow> cell option segment list" where
  "map_labels mapping segments =
     (case mapping of
        Some m \<Rightarrow> map (relabel (map_of m)) segments
      | None \<Rightarrow> map (relabel Some) segments)"

text \<open>
  \<open>segments.groupby("label")\<close>: one group per label, keys ascending, rows in their
  order; rows whose label is NaN belong to no group.
\<close>

definition groupby_label :: "cell option segment list \<Rightarrow> (cell \<times> cell option segment list) list" where
  "groupby_label segments =
     map (\<lambda>k. (k, filter (\<lambda>s. seg_label s = Some k) segments))
       (sort (remdups (List.map_filter seg_label segments)))"

text \<open>\<open>series.reindex(labels, fill_value=fill)\<close> on a series with distinct index.\<close>

definition reindex :: "cell list \<Rightarrow> 'v \<Rightarrow> (cell \<times> 'v) list \<Rightarrow> (cell \<times> 'v) list" where
  "reindex labels fill series =
     map (\<lambda>l. (l, case map_of series l of Some v \<Rightarrow> v | None \<Rightarrow> fill)) labels"

definition mean :: "real list \<Rightarrow> real" where
  "mean xs = sum_list xs / real (length xs)"

section \<open>count.py: get\_num\_expressions\<close>

text \<open>
  The result is a table indexed by label with one count per row (\<open>group=True\<close>), or a
  single total.
\<close>

datatype count_table = PerLabelCount "(cell \<times> int) list" | TotalCount int

definition get_num_expressions :: "pyobj \<Rightarrow> mapping option \<Rightarrow> bool \<Rightarrow> error + count_table" where
  "get_num_expressions results mapping group' =
     (case find_label_segments results ''pred'' of
        Inl e \<Rightarrow> Inl e
      | Inr found \<Rightarrow>
          let segments = map_labels mapping (filter (\<lambda>s. seg_label s \<noteq> Num 0) found);
              labels = (case mapping of Some m \<Rightarrow> dict_values m | None \<Rightarrow> [Num 1, Num 2, Num 3])
          in if group'
             then
               let counts = map (\<lambda>(k, g). (k, int (length g))) (groupby_label segments)
               in Inr (PerLabelCount (reindex labels 0 counts))
             else Inr (TotalCount (int (length segments))))"

section \<open>duration.py: get\_expression\_duration\<close>

text \<open>
  The result is a table of rows with a label and a duration (the label is \<open>None\<close> where
  the mapping left NaN), or a table with the single column \<open>duration\<close>.
\<close>

datatype duration_table =
    LabelledDurations "(cell option \<times> real) list"
  | Durations "real list"

definition get_expression_duration ::
  "pyobj \<Rightarrow> mapping option \<Rightarrow> bool \<Rightarrow> bool \<Rightarrow> error + duration_table" where
  "get_expression_duration results mapping average group' =
     (case find_label_segments results ''pred'' of
        Inl e \<Rightarrow> Inl e
      | Inr found \<Rightarrow>
          let segments = filter (\<lambda>s. seg_label s \<noteq> Num 0) found;
              all_labels = (case mapping of Some m \<Rightarrow> dict_values m | None \<Rightarrow> [Num 1, Num 2, Num 3])
          in if segments \<noteq> []
             then
               if average
               then
                 if group'
                 then
                   let durations =
                         map (\<lambda>(k, g). (k, windows_to_seconds (mean (map (\<lambda>s. real_of_int (seg_duration s)) g)) 25 5))
                           (groupby_label (map_labels mapping segments))
                   in Inr (LabelledDurations (map (\<lambda>(l, d). (Some l, d)) (reindex all_labels 0 durations)))
                 else
                   Inr (Durations
                     [mean (map (\<lambda>s. windows_to_seconds (real_of_int (seg_duration s)) 25 5) segments)])
               else
                 Inr (LabelledDurations
                   (map (\<lambda>s. (seg_label s, windows_to_seconds (real_of_int (seg_duration s)) 25 5))
                      (map_labels mapping segments)))
             else
               if group'
               then Inr (LabelledDurations (map (\<lambda>l. (Some l, 0)) all_labels))
               else Inr (Durations [0]))"

section \<open>intensity.py\<close>

text \<open>\<open>Series.max()\<close>: NaN, here \<open>None\<close>, on an empty slice.\<close>

definition series_max :: "cell list \<Rightarrow> cell option" where
  "series_max xs = (case xs of [] \<Rightarrow> None | x # rest \<Rightarrow> Some (fold max rest x))"

text \<open>
  The loop of \<open>get_intensities_per_segments\<close>. A NaN maximum does not exceed any
  threshold; comparing a string with the threshold raises TypeError.
\<close>

fun intensities_per_segment :: "'l segment list \<Rightarrow> frame \<Rightarrow> real \<Rightarrow> error + real list" where
  "intensities_per_segment [] intensity_data intensity_threshold = Inr []"
| "intensities_per_segment (row # rows) intensity_data intensity_threshold =
     (case getitem intensity_data ''Intensity'' of
        Inl e \<Rightarrow> Inl e
      | Inr col \<Rightarrow>
          (case series_max (iloc_rows col (seg_start row) (seg_end row)) of
             None \<Rightarrow> intensities_per_segment rows intensity_data intensity_threshold
           | Some (Str s) \<Rightarrow> Inl (TypeError ''> not supported between str and float'')
           | Some (Num intensity) \<Rightarrow>
               (case intensities_per_segment rows intensity_data intensity_threshold of
                  Inl e \<Rightarrow> Inl e
                | Inr rest \<Rightarrow>
                    Inr (if intensity > intensity_threshold then intensity # rest else rest))))"

definition get_intensities_per_segments :: "'l segment list \<Rightarrow> frame \<Rightarrow> real \<Rightarrow> error + real" where
  "get_intensities_per_segments segments intensity_data intensity_threshold =
     (case intensities_per_segment segments intensity_data intensity_threshold of
        Inl e \<Rightarrow> Inl e
      | Inr per_segment \<Rightarrow>
          Inr (if per_segment \<noteq> [] then mean per_segment else 0))"

text \<open>
  \<open>groupby("label").apply(f)\<close> over the groups in key order; the first exception ends it.
\<close>

fun apply_groups :: "('g \<Rightarrow> error + 'r) \<Rightarrow> ('k \<times> 'g) list \<Rightarrow> error + ('k \<times> 'r) list" where
  "apply_groups f [] = Inr []"
| "apply_groups f (kg # groups) =
     (case f (snd kg) of
        Inl e \<Rightarrow> Inl e
      | Inr r \<Rightarrow>
          (case apply_groups f groups of
             Inl e \<Rightarrow> Inl e
           | Inr rs \<Rightarrow> Inr ((fst kg, r) # rs)))"

datatype intensity_result = MeanIntensity real | PerLabelIntensity "(cell \<times> real) list"

text \<open>
  With \<open>group_labels\<close>, when every remaining label is NaN there is no group:
  \<open>apply\<close> then returns an empty frame that keeps the column \<open>label\<close>, and
  \<open>reset_index\<close> raises ValueError. With \<open>group_labels=False\<close> the call of
  \<open>get_intensities_per_segments\<close> leaves the threshold at its default \<open>0\<close>.
\<close>

definition get_mean_intensities ::
  "pyobj \<Rightarrow> mapping option \<Rightarrow> bool \<Rightarrow> real \<Rightarrow> string \<Rightarrow> error + intensity_result" where
  "get_mean_intensities intensity_data mapping group_labels intensity_threshold label_col =
     (let all_labels = (case mapping of Some m \<Rightarrow> dict_values m | None \<Rightarrow> [Num 1, Num 2, Num 3])
      in case find_label_segments intensity_data label_col of
           Inl e \<Rightarrow> Inl e
         | Inr found \<Rightarrow>
             (case intensity_data of
                NotDataFrame \<Rightarrow> Inl (ValueError ''Input type is not appropriate.'')
              | DataFrame df \<Rightarrow>
                  let segments = filter (\<lambda>s. seg_label s \<noteq> Num 0) found
                  in if segments = []
                     then
                       if group_labels
                       then Inr (PerLabelIntensity (map (\<lambda>l. (l, 0)) all_labels))
                       else Inr (MeanIntensity 0)
                     else
                       let segments = map_labels mapping segments
                       in if group_labels
                          then
                            if groupby_label segments = []
                            then Inl (ValueError ''cannot insert label, already exists'')
                            else
                              (case apply_groups
                                      (\<lambda>x. get_intensities_per_segments x df intensity_threshold)
                                      (groupby_label segments) of
                                 Inl e \<Rightarrow> Inl e
                               | Inr mean_intensities \<Rightarrow>
                                   Inr (PerLabelIntensity (reindex all_labels 0 mean_intensities)))
                          else
                            (case get_intensities_per_segments segments df 0 of
                               Inl e \<Rightarrow> Inl e
                             | Inr mean_intensities \<Rightarrow> Inr (MeanIntensity mean_intensities))))"

section \<open>model.py: filter\_predictions\<close>

text \<open>\<open>frame.iloc[start:end, 0] = v\<close>: the rows of the slice, in the first column.\<close>

definition set_range :: "'a list \<Rightarrow> nat \<Rightarrow> nat \<Rightarrow> 'a \<Rightarrow> 'a list" where
  "set_range col s e v = map (\<lambda>i. if s \<le> i \<and> i < e then v else col ! i) [0..<length col]"

definition iloc_set_first :: "frame \<Rightarrow> nat \<Rightarrow> nat \<Rightarrow> cell \<Rightarrow> frame" where
  "iloc_set_first df s e v =
     (case df of [] \<Rightarrow> [] | c # rest \<Rightarrow> (fst c, set_range (snd c) s e v) # rest)"

definition filter_predictions :: "frame \<Rightarrow> int \<Rightarrow> error + frame" where
  "filter_predictions results window_threshold =
     (let filtered_results = results
      in case find_label_segments (DataFrame results) ''pred'' of
           Inl e \<Rightarrow> Inl e
         | Inr found \<Rightarrow>
             let segments = filter (\<lambda>s. seg_label s \<noteq> Num 0) found;
                 segments = filter (\<lambda>s. seg_duration s \<le> window_threshold) segments
             in Inr (fold (\<lambda>row fr. iloc_set_first fr (seg_start row) (seg_end row) (Num 0))
                       segments filtered_results))"

section \<open>count.py: the grouped count\<close>

definition nrows :: "frame \<Rightarrow> nat" where
  "nrows df = (case df of [] \<Rightarrow> 0 | c # _ \<Rightarrow> length (snd c))"

definition take_rows :: "frame \<Rightarrow> nat list \<Rightarrow> frame" where
  "take_rows df rows = map (\<lambda>c. (fst c, map (\<lambda>i. snd c ! i) rows)) df"

fun getitems :: "frame \<Rightarrow> string list \<Rightarrow> error + cell list list" where
  "getitems df [] = Inr []"
| "getitems df (name # names) =
     (case getitem df name of
        Inl e \<Rightarrow> Inl e
      | Inr col \<Rightarrow>
          (case getitems df names of
             Inl e \<Rightarrow> Inl e
           | Inr cols \<Rightarrow> Inr (col # cols)))"

text \<open>
  \<open>frame.groupby(names)\<close> for a list of column names: KeyError for a name that is no
  column; else one group per distinct key, keys ascending, each group the rows of that key
  in their order. (A list with a name that is no column and with as many entries as the
  table has rows is read by pandas as one label per row; the model does not cover such
  lists.)
\<close>

definition groupby :: "frame \<Rightarrow> string list \<Rightarrow> error + (cell list \<times> frame) list" where
  "groupby df names =
     (case getitems df names of
        Inl e \<Rightarrow> Inl e
      | Inr key_cols \<Rightarrow>
          let keys = map (\<lambda>i. map (\<lambda>col. col ! i) key_cols) [0..<nrows df]
          in Inr (map (\<lambda>k. (k, take_rows df (filter (\<lambda>i. keys ! i = k) [0..<nrows df])))
                    (sort (remdups keys))))"

definition frame_of_rows :: "string list \<Rightarrow> cell list list \<Rightarrow> frame" where
  "frame_of_rows names rows =
     map (\<lambda>j. (names ! j, map (\<lambda>r. r ! j) rows)) [0..<length names]"

text \<open>
  \<open>reset_index()\<close> turns the index levels into columns and raises ValueError when a
  level has the name of a column that is already there.
\<close>

definition reset_index :: "string list \<Rightarrow> cell list list \<Rightarrow> error + frame" where
  "reset_index names rows =
     (if \<not> distinct names
      then Inl (ValueError ''cannot insert, already exists'')
      else Inr (frame_of_rows names rows))"

definition count_rows :: "count_table \<Rightarrow> cell list list" where
  "count_rows t =
     (case t of
        PerLabelCount rows \<Rightarrow> map (\<lambda>r. [fst r, Num (real_of_int (snd r))]) rows
      | TotalCount n \<Rightarrow> [[Num (real_of_int n)]])"

text \<open>
  \<open>results.groupby(cols).apply(lambda x: get_num_expressions(x, ...)).reset_index()\<close>:
  the rows of each group's count table behind the group's key. On a table without rows
  there is no group: \<open>apply\<close> then returns an empty frame that keeps the key columns, and
  \<open>reset_index\<close> raises ValueError.
\<close>

definition groupby_num_expressions ::
  "frame \<Rightarrow> string list \<Rightarrow> mapping option \<Rightarrow> bool \<Rightarrow> error + frame" where
  "groupby_num_expressions results cols mapping group_labels =
     (case groupby results cols of
        Inl e \<Rightarrow> Inl e
      | Inr groups \<Rightarrow>
          if groups = []
          then Inl (ValueError ''cannot insert, already exists'')
          else
            (case apply_groups (\<lambda>x. get_num_expressions (DataFrame x) mapping group_labels) groups of
               Inl e \<Rightarrow> Inl e
             | Inr counts \<Rightarrow>
                 reset_index
                   (cols @ (if group_labels then [''label''] else []) @ [''expression_count''])
                   (concat (map (\<lambda>kt. map (\<lambda>r. fst kt @ r) (count_rows (snd kt))) counts))))"

text \<open>
  A scaler, as the transform fitted on its first argument and applied to its second, both
  given by columns: \<open>scaler.fit(X); scaler.transform(Y)\<close> is \<open>scaler X Y\<close> and
  \<open>scaler.fit_transform(X)\<close> is \<open>scaler X X\<close>. \<open>None\<close> is the default
  \<open>scaler=None\<close>.
\<close>

type_synonym scaler = "real list list \<Rightarrow> real list list \<Rightarrow> real list list"

fun numeric :: "cell list \<Rightarrow> error + real list" where
  "numeric [] = Inr []"
| "numeric (Num r # cs) =
     (case numeric cs of Inl e \<Rightarrow> Inl e | Inr rs \<Rightarrow> Inr (r # rs))"
| "numeric (Str s # cs) = Inl (ValueError ''could not convert string to float'')"

fun numeric_cols :: "cell list list \<Rightarrow> error + real list list" where
  "numeric_cols [] = Inr []"
| "numeric_cols (col # cols) =
     (case numeric col of
        Inl e \<Rightarrow> Inl e
      | Inr xs \<Rightarrow>
          (case numeric_cols cols of Inl e \<Rightarrow> Inl e | Inr xss \<Rightarrow> Inr (xs # xss)))"

definition set_column :: "frame \<Rightarrow> string \<Rightarrow> cell list \<Rightarrow> frame" where
  "set_column df name col = map (\<lambda>c. if fst c = name then (name, col) else c) df"

definition set_columns :: "frame \<Rightarrow> string list \<Rightarrow> real list list \<Rightarrow> error + frame" where
  "set_columns df names new =
     (if length new \<noteq> length names \<or> (\<exists>col \<in> set new. length col \<noteq> nrows df)
      then Inl (ValueError ''shape mismatch'')
      else Inr (fold (\<lambda>nc g. set_column g (fst nc) (map Num (snd nc))) (zip names new) df))"

definition normalize_group ::
  "scaler option \<Rightarrow> string list \<Rightarrow> frame \<Rightarrow> bool \<Rightarrow> error + frame" where
  "normalize_group scaler data_cols group' fit_all_cols =
     (if fit_all_cols
      then
        (case getitems group' data_cols of
           Inl e \<Rightarrow> Inl e
         | Inr all_cols \<Rightarrow>
             (case scaler of
                None \<Rightarrow> Inl (AttributeError ''NoneType object has no attribute fit'')
              | Some sc \<Rightarrow>
                  (case numeric_cols all_cols of
                     Inl e \<Rightarrow> Inl e
                   | Inr xs \<Rightarrow> set_columns group' data_cols (sc xs xs))))
      else
        (case scaler of
           None \<Rightarrow> Inl (AttributeError ''NoneType object has no attribute fit_transform'')
         | Some sc \<Rightarrow>
             (case getitems group' data_cols of
                Inl e \<Rightarrow> Inl e
              | Inr cols \<Rightarrow>
                  (case numeric_cols cols of
                     Inl e \<Rightarrow> Inl e
                   | Inr xs \<Rightarrow> set_columns group' data_cols (sc xs xs)))))"

text \<open>
  The groups put back together, one below the other. The order of the rows of the result
  is the order of the groups; the caller only sums them by key.
\<close>

definition concat_frames :: "string list \<Rightarrow> frame list \<Rightarrow> frame" where
  "concat_frames names frames =
     map (\<lambda>j. (names ! j, concat (map (\<lambda>f. snd (f ! j)) frames))) [0..<length names]"

definition normalize_data ::
  "frame \<Rightarrow> scaler option \<Rightarrow> string list \<Rightarrow> string list \<Rightarrow> bool \<Rightarrow> error + frame" where
  "normalize_data data scaler grouping_columns data_cols fit_all_cols =
     (case groupby data grouping_columns of
        Inl e \<Rightarrow> Inl e
      | Inr groups \<Rightarrow>
          (case apply_groups (\<lambda>g. normalize_group scaler data_cols g fit_all_cols) groups of
             Inl e \<Rightarrow> Inl e
           | Inr normalized \<Rightarrow> Inr (concat_frames (columns data) (map snd normalized))))"

text \<open>\<open>frame.groupby(cols)[value].sum().reset_index()\<close>.\<close>

definition column_sum :: "string \<Rightarrow> frame \<Rightarrow> error + real" where
  "column_sum name g =
     (case getitem g name of
        Inl e \<Rightarrow> Inl e
      | Inr col \<Rightarrow>
          (case numeric col of
             Inl e \<Rightarrow> Inl e
           | Inr xs \<Rightarrow> Inr (sum_list xs)))"

definition groupby_sum :: "frame \<Rightarrow> string list \<Rightarrow> string \<Rightarrow> error + frame" where
  "groupby_sum df cols name =
     (case groupby df cols of
        Inl e \<Rightarrow> Inl e
      | Inr groups \<Rightarrow>
          (case getitem df name of
             Inl e \<Rightarrow> Inl e
           | Inr col \<Rightarrow>
               (case apply_groups (column_sum name) groups of
                  Inl e \<Rightarrow> Inl e
                | Inr totals \<Rightarrow>
                    reset_index (cols @ [name]) (map (\<lambda>kt. fst kt @ [Num (snd kt)]) totals))))"

text \<open>
  The list objects a call can reach: the list made once, when the function is defined,
  as the default of \<open>grouping_columns\<close>, and the lists of the caller. A call is given a
  reference, \<open>DefaultList\<close> when the argument is left out, and the store; it returns its
  result, or the exception, and the store it leaves. \<open>print\<close> is not modelled.
\<close>

datatype list_ref = DefaultList | CallerList nat

type_synonym store = "list_ref \<Rightarrow> string list"

definition initial_store :: store where
  "initial_store r =
     (case r of DefaultList \<Rightarrow> [''Group'', ''Subject'', ''Video''] | CallerList _ \<Rightarrow> [])"

definition get_grouped_num_expressions ::
  "store \<Rightarrow> frame \<Rightarrow> list_ref \<Rightarrow> mapping option \<Rightarrow> bool \<Rightarrow> bool \<Rightarrow> scaler option
     \<Rightarrow> (error + frame) \<times> store" where
  "get_grouped_num_expressions st results grouping_columns mapping group_labels normalize' scaler =
     (if normalize'
      then
        let normalization_grouping_cols =
              (if ''Video'' \<notin> set (st grouping_columns)
               then Some (st grouping_columns @ [''Video''])
               else None)
        in case normalization_grouping_cols of
             None \<Rightarrow> (Inl (UnboundLocalError ''normalization_grouping_cols''), st)
           | Some cols \<Rightarrow>
               (case groupby_num_expressions results cols mapping group_labels of
                  Inl e \<Rightarrow> (Inl e, st)
                | Inr grouped \<Rightarrow>
                    (case normalize_data grouped scaler [''Subject''] [''expression_count''] False of
                       Inl e \<Rightarrow> (Inl e, st)
                     | Inr normalized_data \<Rightarrow>
                         let st' = (if group_labels
                                    then st(grouping_columns := st grouping_columns @ [''label''])
                                    else st)
                         in (groupby_sum normalized_data (st' grouping_columns) ''expression_count'',
                             st')))
      else (groupby_num_expressions results (st grouping_columns) mapping group_labels, st))"

text \<open>
  The segment table of a column, in closed form: one row per range of the boundary scan,
  labelled with the value at the start of the range.
\<close>

definition segment_rows :: "'a list \<Rightarrow> 'a segment list" where
  "segment_rows col =
     map (\<lambda>p. \<lparr>seg_start = fst p, seg_end = snd p,
                seg_duration = int (snd p) - int (fst p), seg_label = col ! fst p\<rparr>)
       (zip (0 # changes_of col) (changes_of col @ [length col]))"

section \<open>Notions used to state the properties of the aggregators\<close>

text \<open>
  The canonical labels of a call, the qualifying (non-background) segments of a label
  column, and the rows of a relabelled segment table that bear a given label.
\<close>

definition canonical_labels :: "mapping option \<Rightarrow> cell list" where
  "canonical_labels mapping =
     (case mapping of Some m \<Rightarrow> dict_values m | None \<Rightarrow> [Num 1, Num 2, Num 3])"

definition qualifying :: "cell list \<Rightarrow> cell segment list" where
  "qualifying col = filter (\<lambda>s. seg_label s \<noteq> Num 0) (segment_rows col)"

definition label_group :: "cell \<Rightarrow> cell option segment list \<Rightarrow> cell option segment list" where
  "label_group l segments = filter (\<lambda>s. seg_label s = Some l) segments"

section \<open>Example inputs\<close>

text \<open>
  The intensity table of the specification's scenario C: one expression segment
  \<open>[2, 5)\<close> whose largest intensity is \<open>0.9\<close>.
\<close>

definition intensity_example :: frame where
  "intensity_example =
     [(''Predictions'', [Num 0, Num 0, Num 1, Num 1, Num 1, Num 0]),
      (''Intensity'', [Num 0.1, Num 0.1, Num 0.9, Num 0.3, Num 0.2, Num 0.1])]"

text \<open>One subject seen in two videos, with one expression window in the first.\<close>

definition two_videos :: frame where
  "two_videos =
     [(''Group'', [Num 1, Num 1]), (''Subject'', [Num 1, Num 1]),
      (''Video'', [Num 1, Num 2]), (''pred'', [Num 1, Num 0])]"

text \<open>A store in which the caller holds the list \<open>["Group", "Subject"]\<close>.\<close>

definition caller_store :: store where
  "caller_store = initial_store(CallerList 0 := [''Group'', ''Subject''])"

text \<open>A scaler that centres each column on the mean of the column it was fitted on.\<close>

definition centering :: scaler where
  "centering X Y = map2 (\<lambda>x y. map (\<lambda>v. v - mean x) y) X Y"

text \<open>
  A table with one window of label 1 and one of label 2, and a mapping that knows only
  the label 1.
\<close>

definition labels_1_2 :: frame where
  "labels_1_2 = [(''pred'', [Num 1, Num 2]), (''Intensity'', [Num 0.5, Num 0.7])]"

definition mapping_a :: mapping where
  "mapping_a = [(Num 1, Str ''A'')]"

text \<open>A mapping none of whose keys is a label of that table.\<close>

definition mapping_other :: mapping where
  "mapping_other = [(Num 5, Str ''A'')]"

section \<open>Segmentation: the partition property\<close>

lemma zip_bounds_concat:
  "sorted_wrt (<) cs \<Longrightarrow> \<forall>c\<in>set cs. a < c \<and> c < n \<Longrightarrow> a < n \<Longrightarrow>
   concat (map (\<lambda>(s, e). [s..<e]) (zip (a # cs) (cs @ [n]))) = [a..<n]"
proof (induction cs arbitrary: a)
  case Nil
  then show ?case by simp
next
  case (Cons c cs)
  have "concat (map (\<lambda>(s, e). [s..<e]) (zip (c # cs) (cs @ [n]))) = [c..<n]"
    using Cons.prems by (intro Cons.IH) auto
  moreover have "[a..<c] @ [c..<n] = [a..<n]"
    using Cons.prems by (metis le_Suc_ex less_imp_le list.set_intros(1) upt_add_eq_append)
  ultimately show ?case by simp
qed

lemma zip_bounds_no_between:
  "sorted_wrt (<) (cs::nat list) \<Longrightarrow> \<forall>c\<in>set cs. a < c \<Longrightarrow> p \<in> set (zip (a # cs) (cs @ [n])) \<Longrightarrow>
   c \<in> set cs \<Longrightarrow> \<not> (fst p < c \<and> c < snd p)"
proof (induction cs arbitrary: a)
  case Nil
  then show ?case by simp
next
  case (Cons d ds)
  from Cons.prems(3) have "p = (a, d) \<or> p \<in> set (zip (d # ds) (ds @ [n]))" by auto
  then show ?case
  proof
    assume "p = (a, d)"
    then show ?thesis using Cons.prems by auto
  next
    assume p: "p \<in> set (zip (d # ds) (ds @ [n]))"
    then have "fst p \<in> set (d # ds)" by (metis prod.collapse set_zip_leftD)
    then have ge: "d \<le> fst p" using Cons.prems(1) by auto
    show ?thesis
    proof (cases "c = d")
      case True
      then show ?thesis using ge by simp
    next
      case False
      then have "c \<in> set ds" using Cons.prems(4) by simp
      moreover have "sorted_wrt (<) ds" "\<forall>c\<in>set ds. d < c" using Cons.prems(1) by auto
      ultimately show ?thesis using Cons.IH p by blast
    qed
  qed
qed

lemma zip_bounds_props:
  "sorted_wrt (<) (cs::nat list) \<Longrightarrow> \<forall>c\<in>set cs. a < c \<and> c < n \<Longrightarrow> a < n \<Longrightarrow>
   p \<in> set (zip (a # cs) (cs @ [n])) \<Longrightarrow> a \<le> fst p \<and> fst p < snd p \<and> snd p \<le> n"
proof (induction cs arbitrary: a)
  case Nil
  then show ?case by auto
next
  case (Cons d ds)
  from Cons.prems(4) have "p = (a, d) \<or> p \<in> set (zip (d # ds) (ds @ [n]))" by auto
  then show ?case
  proof
    assume "p = (a, d)"
    then show ?thesis using Cons.prems by auto
  next
    assume p: "p \<in> set (zip (d # ds) (ds @ [n]))"
    have "d \<le> fst p \<and> fst p < snd p \<and> snd p \<le> n"
      using Cons.prems p by (intro Cons.IH) auto
    then show ?thesis using Cons.prems(2) by force
  qed
qed

lemma changes_sorted: "sorted_wrt (<) (changes_of vs)"
  by (simp add: changes_of_def flatnonzero_def sorted_wrt_map sorted_wrt_filter)

lemma changes_mem:
  "c \<in> set (changes_of vs) \<longleftrightarrow> (\<exists>j. c = Suc j \<and> Suc j < length vs \<and> vs ! j \<noteq> vs ! Suc j)"
  by (auto simp: changes_of_def flatnonzero_def nth_butlast nth_tl image_iff)

lemma changes_bounds: "c \<in> set (changes_of vs) \<Longrightarrow> 0 < c \<and> c < length vs"
  by (auto simp: changes_mem)

lemma find_subsegments_indices_eq:
  "vs \<noteq> [] \<Longrightarrow> find_subsegments_indices vs = Inr (zip (0 # changes_of vs) (changes_of vs @ [length vs]))"
  by (simp add: find_subsegments_indices_def changes_of_def Let_def)


lemma segments_homogeneous:
  assumes "vs \<noteq> []" and "p \<in> set (zip (0 # changes_of vs) (changes_of vs @ [length vs]))"
    and "fst p \<le> j" and "j < snd p"
  shows "vs ! j = vs ! fst p"
proof -
  have b: "fst p < snd p \<and> snd p \<le> length vs"
    using zip_bounds_props[OF changes_sorted, of vs 0 "length vs" p] assms changes_bounds by auto
  have nb: "\<And>c. c \<in> set (changes_of vs) \<Longrightarrow> \<not> (fst p < c \<and> c < snd p)"
    using zip_bounds_no_between[OF changes_sorted, of vs 0 p "length vs"] assms(2) changes_bounds
    by blast
  have "fst p + d < snd p \<Longrightarrow> vs ! (fst p + d) = vs ! fst p" for d
  proof (induction d)
    case 0
    then show ?case by simp
  next
    case (Suc d)
    then have "Suc (fst p + d) \<notin> set (changes_of vs)" using nb by auto
    then have "vs ! (fst p + d) = vs ! Suc (fst p + d)"
      using Suc.prems b by (auto simp: changes_mem)
    then show ?case using Suc by simp
  qed
  from this[of "j - fst p"] assms(3,4) show ?thesis by simp
qed


lemma segments_fst: "map fst (zip (0 # changes_of vs) (changes_of vs @ [length vs])) = 0 # changes_of vs"
  by (simp add: map_fst_zip)

lemma partition_starts_sorted:
  "sorted_wrt (<) (map fst (zip (0 # changes_of vs) (changes_of vs @ [length vs])))"
  unfolding segments_fst using changes_sorted[of vs] changes_bounds[of _ vs] by auto

lemma partition_contiguous:
  assumes "Suc k < length (zip (0 # changes_of vs) (changes_of vs @ [length vs]))"
  shows "snd (zip (0 # changes_of vs) (changes_of vs @ [length vs]) ! k)
       = fst (zip (0 # changes_of vs) (changes_of vs @ [length vs]) ! Suc k)"
  using assms by (simp add: nth_append)

lemma partition_ends:
  "fst (hd (zip (0 # changes_of vs) (changes_of vs @ [length vs]))) = 0"
  "snd (last (zip (0 # changes_of vs) (changes_of vs @ [length vs]))) = length vs"
proof -
  show "fst (hd (zip (0 # changes_of vs) (changes_of vs @ [length vs]))) = 0"
    by (cases "changes_of vs") simp_all
  have "last (zip (0 # changes_of vs) (changes_of vs @ [length vs]))
      = (last (0 # changes_of vs), last (changes_of vs @ [length vs]))"
    by (rule last_zip) simp_all
  then show "snd (last (zip (0 # changes_of vs) (changes_of vs @ [length vs]))) = length vs"
    by simp
qed

lemma changes_singleton: "length vs = 1 \<Longrightarrow> changes_of vs = []"
  by (cases vs) (simp_all add: changes_of_def flatnonzero_def)

text \<open>
  Claim C1. For every non-empty label sequence, \<open>find_subsegments_indices\<close> returns
  ranges whose concatenation is exactly the index list of the input (they cover every index
  once, in order, without overlap), each range is non-empty, starts ascend strictly, each
  range ends where the next starts, the first starts at \<open>0\<close> and the last ends at the
  length of the input; a sequence of length one gives the single range \<open>[0, 1)\<close>.
\<close>

theorem find_subsegments_indices_partition:
  assumes "values \<noteq> []"
  shows "\<exists>segments. find_subsegments_indices values = Inr segments
           \<and> concat (map (\<lambda>(s, e). [s..<e]) segments) = [0..<length values]
           \<and> (\<forall>p \<in> set segments. fst p < snd p)
           \<and> sorted_wrt (<) (map fst segments)
           \<and> (\<forall>k. Suc k < length segments \<longrightarrow> snd (segments ! k) = fst (segments ! Suc k))
           \<and> fst (hd segments) = 0
           \<and> snd (last segments) = length values
           \<and> (length values = 1 \<longrightarrow> segments = [(0, 1)])"
proof -
  let ?segs = "zip (0 # changes_of values) (changes_of values @ [length values])"
  have n: "0 < length values" using assms by simp
  have bnd: "\<forall>c\<in>set (changes_of values). 0 < c \<and> c < length values"
    using changes_bounds by blast
  have 1: "find_subsegments_indices values = Inr ?segs"
    using assms by (rule find_subsegments_indices_eq)
  have 2: "concat (map (\<lambda>(s, e). [s..<e]) ?segs) = [0..<length values]"
    using changes_sorted bnd n by (rule zip_bounds_concat)
  have 3: "\<forall>p \<in> set ?segs. fst p < snd p"
    using zip_bounds_props[OF changes_sorted bnd n] by blast
  have 4: "sorted_wrt (<) (map fst ?segs)"
    by (rule partition_starts_sorted)
  have 5: "\<forall>k. Suc k < length ?segs \<longrightarrow> snd (?segs ! k) = fst (?segs ! Suc k)"
    using partition_contiguous by blast
  have 6: "length values = 1 \<longrightarrow> ?segs = [(0, 1)]"
    by (simp add: changes_singleton)
  show ?thesis
    using 1 2 3 4 5 6 partition_ends[of "values"] by blast
qed

theorem find_subsegments_indices_partition_witness:
  "[0, 0, 1, 1, 1, 0, 2, 2 :: int] \<noteq> []
   \<and> (\<exists>segments. find_subsegments_indices [0, 0, 1, 1, 1, 0, 2, 2 :: int] = Inr segments
           \<and> concat (map (\<lambda>(s, e). [s..<e]) segments) = [0..<length [0, 0, 1, 1, 1, 0, 2, 2 :: int]]
           \<and> (\<forall>p \<in> set segments. fst p < snd p)
           \<and> sorted_wrt (<) (map fst segments)
           \<and> (\<forall>k. Suc k < length segments \<longrightarrow> snd (segments ! k) = fst (segments ! Suc k))
           \<and> fst (hd segments) = 0
           \<and> snd (last segments) = length [0, 0, 1, 1, 1, 0, 2, 2 :: int]
           \<and> (length [0, 0, 1, 1, 1, 0, 2, 2 :: int] = 1 \<longrightarrow> segments = [(0, 1)]))"
proof -
  have h: "[0, 0, 1, 1, 1, 0, 2, 2 :: int] \<noteq> []" by simp
  show ?thesis using h find_subsegments_indices_partition[OF h] by (rule conjI)
qed

section \<open>The windowed-time converter\<close>

text \<open>
  Claim C9. For every integer \<open>n_windows \<ge> 1\<close>, \<open>windows_to_seconds\<close> returns
  \<open>(window_size + window_slide * (n_windows - 1)) / 50\<close>; with the sizes 25 and 5 one
  window lasts 0.5 seconds and five windows last 0.9 seconds.
\<close>

theorem windows_to_seconds_formula:
  assumes "1 \<le> n_windows"
  shows "windows_to_seconds (real_of_int n_windows) window_size window_slide
           = (window_size + window_slide * (real_of_int n_windows - 1)) / 50
         \<and> windows_to_seconds 1 25 5 = 0.5
         \<and> windows_to_seconds 5 25 5 = 0.9"
  by (simp add: windows_to_seconds_def)

theorem windows_to_seconds_formula_witness:
  "(1::int) \<le> 5
   \<and> windows_to_seconds (real_of_int 5) 25 5 = (25 + 5 * (real_of_int 5 - 1)) / 50
   \<and> windows_to_seconds 1 25 5 = 0.5
   \<and> windows_to_seconds 5 25 5 = 0.9"
proof -
  have h: "(1::int) \<le> 5" by simp
  show ?thesis using h windows_to_seconds_formula[OF h, of 25 5] by (rule conjI)
qed

section \<open>find\_label\_segments\<close>

lemma get_loc_nth: "map_of df name = Some col \<Longrightarrow> df ! get_loc df name = (name, col)"
  by (induction df) (auto simp: get_loc_def split: if_splits)

lemma map_of_columns: "name \<in> set (columns df) \<longleftrightarrow> (\<exists>col. map_of df name = Some col)"
  by (induction df) (auto simp: columns_def)

lemma hd_unique: "xs \<noteq> [] \<Longrightarrow> hd (unique xs) = hd xs"
  by (cases xs) simp_all

lemma segment_labels_nonempty:
  "\<forall>p \<in> set segs. fst p < snd p \<and> snd p \<le> length col \<Longrightarrow>
   segment_labels col segs = map (\<lambda>p. col ! fst p) segs"
proof (induction segs)
  case Nil
  then show ?case by simp
next
  case (Cons p segs)
  then have b: "fst p < snd p" "snd p \<le> length col" by auto
  then have ne: "iloc_rows col (fst p) (snd p) \<noteq> []"
    by (auto simp: iloc_rows_def)
  have "hd (iloc_rows col (fst p) (snd p)) = col ! fst p"
    using b by (simp add: iloc_rows_def hd_drop_conv_nth)
  then show ?case using Cons ne by (simp add: hd_unique Let_def)
qed

lemma segments_in_range:
  assumes "vs \<noteq> []" and "p \<in> set (zip (0 # changes_of vs) (changes_of vs @ [length vs]))"
  shows "fst p < snd p \<and> snd p \<le> length vs"
  using zip_bounds_props[OF changes_sorted, of vs 0 "length vs" p] assms changes_bounds by auto

lemma segment_labels_eq:
  assumes "col \<noteq> []"
  shows "segment_labels col (zip (0 # changes_of col) (changes_of col @ [length col]))
       = map (\<lambda>p. col ! fst p) (zip (0 # changes_of col) (changes_of col @ [length col]))"
  by (rule segment_labels_nonempty) (use segments_in_range[OF assms] in blast)

lemma map2_map_same: "map2 f xs (map g xs) = map (\<lambda>x. f x (g x)) xs"
  by (induction xs) simp_all

lemma find_label_segments_ok:
  assumes "map_of df c = Some col" and "col \<noteq> []"
  shows "find_label_segments (DataFrame df) c = Inr (segment_rows col)"
proof -
  have mem: "c \<in> set (columns df)" using assms(1) map_of_columns by blast
  have gi: "getitem df c = Inr col" using assms(1) by (simp add: getitem_def)
  have fs: "find_subsegments_indices col
            = Inr (zip (0 # changes_of col) (changes_of col @ [length col]))"
    using assms(2) by (rule find_subsegments_indices_eq)
  have gl: "get_segment_label (DataFrame df) (zip (0 # changes_of col) (changes_of col @ [length col])) c
            = Inr (map (\<lambda>p. col ! fst p) (zip (0 # changes_of col) (changes_of col @ [length col])))"
    using mem get_loc_nth[OF assms(1)] segment_labels_eq[OF assms(2)]
    by (simp add: get_segment_label_def)
  show ?thesis
    unfolding find_label_segments_def
    by (simp add: mem gi fs gl map2_map_same segment_rows_def del: zip_Cons_Cons)
qed

lemma find_label_segments_empty:
  assumes "map_of df c = Some []"
  shows "find_label_segments (DataFrame df) c
         = Inl (ValueError ''Segments cannot be extracted from an empty list'')"
proof -
  have mem: "c \<in> set (columns df)" using assms(1) map_of_columns by blast
  have gi: "getitem df c = Inr []" using assms(1) by (simp add: getitem_def)
  show ?thesis
    unfolding find_label_segments_def
    by (simp add: mem gi find_subsegments_indices_def)
qed

lemma find_label_segments_absent:
  "c \<notin> set (columns df) \<Longrightarrow>
   find_label_segments (DataFrame df) c = Inl (ValueError ''Target column not found in DataFrame'')"
  by (simp add: find_label_segments_def)

lemma find_label_segments_not_frame:
  "find_label_segments NotDataFrame c = Inl (ValueError ''Input type is not appropriate.'')"
  by (simp add: find_label_segments_def)

text \<open>
  Claim C8. \<open>find_label_segments\<close> raises if and only if its input is not a table, the
  named column is absent, or the column has no rows; each case raises the ValueError of its
  own message, and the length-mismatch error is never raised. On every table that has the
  column with at least one row the call returns.
\<close>

theorem find_label_segments_raises_iff:
  "((\<exists>e. find_label_segments data label_column = Inl e) \<longleftrightarrow>
      (data = NotDataFrame
       \<or> (\<exists>df. data = DataFrame df
               \<and> (label_column \<notin> set (columns df) \<or> map_of df label_column = Some []))))
   \<and> (data = NotDataFrame \<longrightarrow>
        find_label_segments data label_column = Inl (ValueError ''Input type is not appropriate.''))
   \<and> (\<forall>df. data = DataFrame df \<and> label_column \<notin> set (columns df) \<longrightarrow>
        find_label_segments data label_column = Inl (ValueError ''Target column not found in DataFrame''))
   \<and> (\<forall>df. data = DataFrame df \<and> map_of df label_column = Some [] \<longrightarrow>
        find_label_segments data label_column
          = Inl (ValueError ''Segments cannot be extracted from an empty list''))
   \<and> find_label_segments data label_column
        \<noteq> Inl (ValueError ''Length mismatch between segments and labels'')"
proof (cases data)
  case NotDataFrame
  then show ?thesis by (simp add: find_label_segments_not_frame)
next
  case (DataFrame df)
  show ?thesis
  proof (cases "map_of df label_column")
    case None
    then have "label_column \<notin> set (columns df)" using map_of_columns by simp
    then show ?thesis using DataFrame None by (simp add: find_label_segments_absent)
  next
    case (Some col)
    then have mem: "label_column \<in> set (columns df)" using map_of_columns by blast
    show ?thesis
    proof (cases "col = []")
      case True
      then show ?thesis using DataFrame Some mem by (simp add: find_label_segments_empty)
    next
      case False
      then show ?thesis using DataFrame Some mem by (simp add: find_label_segments_ok)
    qed
  qed
qed

theorem find_label_segments_raises_iff_witness:
  "find_label_segments NotDataFrame ''pred'' = Inl (ValueError ''Input type is not appropriate.'')
   \<and> find_label_segments (DataFrame [(''Subject'', [Num 1])]) ''pred''
       = Inl (ValueError ''Target column not found in DataFrame'')
   \<and> find_label_segments (DataFrame [(''pred'', [])]) ''pred''
       = Inl (ValueError ''Segments cannot be extracted from an empty list'')
   \<and> \<not> (\<exists>e. find_label_segments (DataFrame [(''pred'', [Num 0, Num 1])]) ''pred'' = Inl e)"
  using find_label_segments_raises_iff[of NotDataFrame "''pred''"]
        find_label_segments_raises_iff[of "DataFrame [(''Subject'', [Num 1])]" "''pred''"]
        find_label_segments_raises_iff[of "DataFrame [(''pred'', [])]" "''pred''"]
        find_label_segments_raises_iff[of "DataFrame [(''pred'', [Num 0, Num 1])]" "''pred''"]
  by (simp add: columns_def)

text \<open>
  Claim C2. On a table whose label column is present with at least one row,
  \<open>find_label_segments\<close> returns one row per range of \<open>find_subsegments_indices\<close>, with
  as many labels from \<open>get_segment_label\<close> as ranges, and the label of every row is the
  value held by every position of its range \<open>[start, end)\<close> of the column.
\<close>

theorem find_label_segments_homogeneous:
  assumes "map_of df label_column = Some col" and "col \<noteq> []"
  shows "\<exists>segments idx labels.
           find_label_segments (DataFrame df) label_column = Inr segments
         \<and> find_subsegments_indices col = Inr idx
         \<and> get_segment_label (DataFrame df) idx label_column = Inr labels
         \<and> length labels = length idx
         \<and> map (\<lambda>s. (seg_start s, seg_end s)) segments = idx
         \<and> map seg_label segments = labels
         \<and> (\<forall>s \<in> set segments. seg_start s < seg_end s \<and> seg_end s \<le> length col
               \<and> (\<forall>j. seg_start s \<le> j \<and> j < seg_end s \<longrightarrow> col ! j = seg_label s))"
proof -
  let ?idx = "zip (0 # changes_of col) (changes_of col @ [length col])"
  have mem: "label_column \<in> set (columns df)" using assms(1) map_of_columns by blast
  have 1: "find_label_segments (DataFrame df) label_column = Inr (segment_rows col)"
    using assms by (rule find_label_segments_ok)
  have 2: "find_subsegments_indices col = Inr ?idx"
    using assms(2) by (rule find_subsegments_indices_eq)
  have 3: "get_segment_label (DataFrame df) ?idx label_column = Inr (map (\<lambda>p. col ! fst p) ?idx)"
    using mem get_loc_nth[OF assms(1)] segment_labels_eq[OF assms(2)]
    by (simp add: get_segment_label_def)
  have 4: "map (\<lambda>s. (seg_start s, seg_end s)) (segment_rows col) = ?idx"
    by (simp add: segment_rows_def comp_def del: zip_Cons_Cons)
  have 5: "map seg_label (segment_rows col) = map (\<lambda>p. col ! fst p) ?idx"
    by (simp add: segment_rows_def comp_def del: zip_Cons_Cons)
  have 6: "\<forall>s \<in> set (segment_rows col). seg_start s < seg_end s \<and> seg_end s \<le> length col
               \<and> (\<forall>j. seg_start s \<le> j \<and> j < seg_end s \<longrightarrow> col ! j = seg_label s)"
  proof
    fix s assume "s \<in> set (segment_rows col)"
    then obtain p where p: "p \<in> set ?idx" and s: "seg_start s = fst p" "seg_end s = snd p"
      "seg_label s = col ! fst p"
      unfolding segment_rows_def by auto
    show "seg_start s < seg_end s \<and> seg_end s \<le> length col
               \<and> (\<forall>j. seg_start s \<le> j \<and> j < seg_end s \<longrightarrow> col ! j = seg_label s)"
    proof (intro conjI allI impI)
      show "seg_start s < seg_end s" "seg_end s \<le> length col"
        using segments_in_range[OF assms(2) p] s by simp_all
    next
      fix j assume "seg_start s \<le> j \<and> j < seg_end s"
      then have "fst p \<le> j" "j < snd p" using s by simp_all
      then have "col ! j = col ! fst p" by (rule segments_homogeneous[OF assms(2) p])
      then show "col ! j = seg_label s" using s by simp
    qed
  qed
  have 7: "length (map (\<lambda>p. col ! fst p) ?idx) = length ?idx" by simp
  show ?thesis using 1 2 3 4 5 6 7 by blast
qed

theorem find_label_segments_homogeneous_witness:
  "map_of [(''pred'', [Num 0, Num 0, Num 1])] ''pred'' = Some [Num 0, Num 0, Num 1]
   \<and> [Num 0, Num 0, Num 1] \<noteq> []
   \<and> (\<exists>segments idx labels.
           find_label_segments (DataFrame [(''pred'', [Num 0, Num 0, Num 1])]) ''pred'' = Inr segments
         \<and> find_subsegments_indices [Num 0, Num 0, Num 1] = Inr idx
         \<and> get_segment_label (DataFrame [(''pred'', [Num 0, Num 0, Num 1])]) idx ''pred'' = Inr labels
         \<and> length labels = length idx
         \<and> map (\<lambda>s. (seg_start s, seg_end s)) segments = idx
         \<and> map seg_label segments = labels
         \<and> (\<forall>s \<in> set segments. seg_start s < seg_end s \<and> seg_end s \<le> length [Num 0, Num 0, Num 1]
               \<and> (\<forall>j. seg_start s \<le> j \<and> j < seg_end s \<longrightarrow> [Num 0, Num 0, Num 1] ! j = seg_label s)))"
proof -
  have h1: "map_of [(''pred'', [Num 0, Num 0, Num 1])] ''pred'' = Some [Num 0, Num 0, Num 1]"
    by simp
  have h2: "[Num 0, Num 0, Num 1] \<noteq> []" by simp
  show ?thesis using h1 h2 find_label_segments_homogeneous[OF h1 h2] by blast
qed

section \<open>Grouping by label and zero fill\<close>

lemma set_map_filter_label:
  "set (List.map_filter seg_label segs) = {k. \<exists>s \<in> set segs. seg_label s = Some k}"
  by (force simp: List.map_filter_def image_iff)

lemma label_group_empty_iff:
  "label_group l segs = [] \<longleftrightarrow> l \<notin> set (List.map_filter seg_label segs)"
  by (auto simp: label_group_def set_map_filter_label filter_empty_conv)

lemma groupby_label_eq:
  "groupby_label segs
   = map (\<lambda>k. (k, label_group k segs)) (sort (remdups (List.map_filter seg_label segs)))"
  by (simp add: groupby_label_def label_group_def)

lemma groupby_label_empty_iff:
  "groupby_label segs = [] \<longleftrightarrow> (\<forall>s \<in> set segs. seg_label s = None)"
proof -
  have "set (map fst (groupby_label segs)) = set (List.map_filter seg_label segs)"
    by (simp add: groupby_label_eq comp_def)
  then have 1: "groupby_label segs = [] \<longleftrightarrow> set (List.map_filter seg_label segs) = {}"
    by (metis map_is_Nil_conv set_empty)
  have 2: "set (List.map_filter seg_label segs) = {} \<longleftrightarrow> (\<forall>s \<in> set segs. seg_label s = None)"
  proof
    assume e: "set (List.map_filter seg_label segs) = {}"
    show "\<forall>s \<in> set segs. seg_label s = None"
    proof
      fix s assume s: "s \<in> set segs"
      show "seg_label s = None"
      proof (cases "seg_label s")
        case None
        then show ?thesis .
      next
        case (Some k)
        then have "k \<in> set (List.map_filter seg_label segs)"
          using s unfolding set_map_filter_label by blast
        then show ?thesis using e by simp
      qed
    qed
  next
    assume "\<forall>s \<in> set segs. seg_label s = None"
    then show "set (List.map_filter seg_label segs) = {}"
      unfolding set_map_filter_label by simp
  qed
  show ?thesis using 1 2 by simp
qed

lemma reindex_groupby:
  "reindex labels z (map (\<lambda>kg. (fst kg, F (snd kg))) (groupby_label segs))
   = map (\<lambda>l. (l, if label_group l segs = [] then z else F (label_group l segs))) labels"
proof -
  let ?keys = "sort (remdups (List.map_filter seg_label segs))"
  have m: "map (\<lambda>kg. (fst kg, F (snd kg))) (groupby_label segs)
           = map (\<lambda>k. (k, F (label_group k segs))) ?keys"
    by (simp add: groupby_label_eq comp_def)
  have "map_of (map (\<lambda>k. (k, F (label_group k segs))) ?keys) l
        = (if label_group l segs = [] then None else Some (F (label_group l segs)))" for l
    by (simp add: map_of_map_restrict restrict_map_def label_group_empty_iff)
  then show ?thesis
    unfolding reindex_def m by (intro map_cong) auto
qed

lemma reindex_keys: "map fst (reindex labels z series) = labels"
  by (simp add: reindex_def comp_def)

lemma get_num_expressions_per_label:
  assumes "map_of df ''pred'' = Some col" and "col \<noteq> []"
  shows "get_num_expressions (DataFrame df) mapping True
         = Inr (PerLabelCount
              (map (\<lambda>l. (l, int (length (label_group l (map_labels mapping (qualifying col))))))
                 (canonical_labels mapping)))"
proof -
  have f: "find_label_segments (DataFrame df) ''pred'' = Inr (segment_rows col)"
    using assms by (rule find_label_segments_ok)
  have r: "reindex labels 0 (map (\<lambda>(k, g). (k, int (length g))) (groupby_label segs))
           = map (\<lambda>l. (l, int (length (label_group l segs)))) labels" for labels segs
    using reindex_groupby[of labels 0 "\<lambda>g. int (length g)" segs]
    by (simp add: case_prod_unfold cong: if_cong)
  show ?thesis
    by (simp add: get_num_expressions_def f r canonical_labels_def qualifying_def Let_def)
qed

lemma get_num_expressions_total:
  assumes "map_of df ''pred'' = Some col" and "col \<noteq> []"
  shows "get_num_expressions (DataFrame df) mapping False
         = Inr (TotalCount (int (length (qualifying col))))"
proof -
  have f: "find_label_segments (DataFrame df) ''pred'' = Inr (segment_rows col)"
    using assms by (rule find_label_segments_ok)
  have "length (map_labels mapping segs) = length segs" for segs
    by (simp add: map_labels_def split: option.splits)
  then show ?thesis
    by (simp add: get_num_expressions_def f qualifying_def Let_def)
qed

section \<open>Closed forms of the duration and intensity aggregators\<close>

lemma map_labels_Nil_iff: "map_labels mapping segs = [] \<longleftrightarrow> segs = []"
  by (simp add: map_labels_def split: option.splits)

lemma get_expression_duration_empty:
  assumes "map_of df ''pred'' = Some col" and "col \<noteq> []" and "qualifying col = []"
  shows "get_expression_duration (DataFrame df) mapping average True
         = Inr (LabelledDurations (map (\<lambda>l. (Some l, 0)) (canonical_labels mapping)))"
proof -
  have f: "find_label_segments (DataFrame df) ''pred'' = Inr (segment_rows col)"
    using assms(1,2) by (rule find_label_segments_ok)
  have q: "filter (\<lambda>s. seg_label s \<noteq> Num 0) (segment_rows col) = []"
    using assms(3) by (simp add: qualifying_def)
  show ?thesis
    by (simp add: get_expression_duration_def f q canonical_labels_def Let_def)
qed

lemma get_expression_duration_average:
  assumes "map_of df ''pred'' = Some col" and "col \<noteq> []" and "qualifying col \<noteq> []"
  shows "get_expression_duration (DataFrame df) mapping True True
         = Inr (LabelledDurations
              (map (\<lambda>l. (Some l,
                      if label_group l (map_labels mapping (qualifying col)) = [] then 0
                      else windows_to_seconds
                             (mean (map (\<lambda>s. real_of_int (seg_duration s))
                                      (label_group l (map_labels mapping (qualifying col))))) 25 5))
                 (canonical_labels mapping)))"
proof -
  have f: "find_label_segments (DataFrame df) ''pred'' = Inr (segment_rows col)"
    using assms(1,2) by (rule find_label_segments_ok)
  have q: "filter (\<lambda>s. seg_label s \<noteq> Num 0) (segment_rows col) \<noteq> []"
    using assms(3) by (simp add: qualifying_def)
  have r: "reindex labels 0
             (map (\<lambda>(k, g). (k, windows_to_seconds (mean (map (\<lambda>s. real_of_int (seg_duration s)) g)) 25 5))
                (groupby_label segs))
           = map (\<lambda>l. (l, if label_group l segs = [] then 0
                          else windows_to_seconds
                                 (mean (map (\<lambda>s. real_of_int (seg_duration s)) (label_group l segs))) 25 5))
               labels" for labels segs
    using reindex_groupby[of labels 0
            "\<lambda>g. windows_to_seconds (mean (map (\<lambda>s. real_of_int (seg_duration s)) g)) 25 5" segs]
    by (simp add: case_prod_unfold)
  show ?thesis
    unfolding get_expression_duration_def
    by (simp add: f q r canonical_labels_def qualifying_def Let_def comp_def)
qed

lemma get_expression_duration_per_segment:
  assumes "map_of df ''pred'' = Some col" and "col \<noteq> []" and "qualifying col \<noteq> []"
  shows "get_expression_duration (DataFrame df) mapping False group'
         = Inr (LabelledDurations
              (map (\<lambda>s. (seg_label s, windows_to_seconds (real_of_int (seg_duration s)) 25 5))
                 (map_labels mapping (qualifying col))))"
proof -
  have f: "find_label_segments (DataFrame df) ''pred'' = Inr (segment_rows col)"
    using assms(1,2) by (rule find_label_segments_ok)
  have q: "filter (\<lambda>s. seg_label s \<noteq> Num 0) (segment_rows col) \<noteq> []"
    using assms(3) by (simp add: qualifying_def)
  show ?thesis
    unfolding get_expression_duration_def
    by (simp add: f q qualifying_def Let_def)
qed

lemma fold_max_num:
  "\<forall>c \<in> set xs. \<exists>r. c = Num r \<Longrightarrow> \<exists>r. fold max xs (Num a) = Num r"
proof (induction xs arbitrary: a)
  case Nil
  then show ?case by simp
next
  case (Cons x xs)
  then obtain b where b: "x = Num b" by auto
  have "max (Num b) (Num a) = Num (max b a)"
    by (simp add: max_def)
  then show ?case using Cons b by simp
qed

lemma series_max_num:
  assumes "\<forall>c \<in> set xs. \<exists>r. c = Num r"
  shows "series_max xs = None \<or> (\<exists>r. series_max xs = Some (Num r))"
proof (cases xs)
  case Nil
  then show ?thesis by (simp add: series_max_def)
next
  case (Cons x rest)
  then obtain a where "x = Num a" using assms by auto
  then show ?thesis using Cons assms fold_max_num[of rest a] by (simp add: series_max_def)
qed

lemma iloc_rows_subset: "set (iloc_rows xs s e) \<subseteq> set xs"
  unfolding iloc_rows_def by (meson order_trans set_drop_subset set_take_subset)

lemma intensities_per_segment_ok:
  assumes "map_of df ''Intensity'' = Some icol" and "\<forall>c \<in> set icol. \<exists>r. c = Num r"
  shows "\<exists>xs. intensities_per_segment segs df thr = Inr xs"
proof (induction segs)
  case Nil
  then show ?case by simp
next
  case (Cons row rows)
  then obtain rest where rest: "intensities_per_segment rows df thr = Inr rest" by blast
  have gi: "getitem df ''Intensity'' = Inr icol" using assms(1) by (simp add: getitem_def)
  have "set (iloc_rows icol (seg_start row) (seg_end row)) \<subseteq> set icol"
    by (rule iloc_rows_subset)
  then have "\<forall>c \<in> set (iloc_rows icol (seg_start row) (seg_end row)). \<exists>r. c = Num r"
    using assms(2) by (simp add: subset_iff)
  then have "series_max (iloc_rows icol (seg_start row) (seg_end row)) = None
      \<or> (\<exists>r. series_max (iloc_rows icol (seg_start row) (seg_end row)) = Some (Num r))"
    by (rule series_max_num)
  then show ?case
  proof (elim disjE exE)
    assume "series_max (iloc_rows icol (seg_start row) (seg_end row)) = None"
    then show ?thesis by (simp add: gi rest)
  next
    fix r assume "series_max (iloc_rows icol (seg_start row) (seg_end row)) = Some (Num r)"
    then show ?thesis by (simp add: gi rest)
  qed
qed

lemma get_intensities_per_segments_ok:
  assumes "map_of df ''Intensity'' = Some icol" and "\<forall>c \<in> set icol. \<exists>r. c = Num r"
  shows "\<exists>v. get_intensities_per_segments segs df thr = Inr v"
  using intensities_per_segment_ok[OF assms, of segs thr]
  by (auto simp: get_intensities_per_segments_def)

lemma apply_groups_ok:
  "\<forall>kg \<in> set groups. \<exists>r. f (snd kg) = Inr r \<Longrightarrow>
   apply_groups f groups = Inr (map (\<lambda>kg. (fst kg, projr (f (snd kg)))) groups)"
  by (induction groups) auto

lemma get_mean_intensities_empty:
  assumes "map_of df label_col = Some col" and "col \<noteq> []" and "qualifying col = []"
  shows "get_mean_intensities (DataFrame df) mapping True thr label_col
         = Inr (PerLabelIntensity (map (\<lambda>l. (l, 0)) (canonical_labels mapping)))"
proof -
  have f: "find_label_segments (DataFrame df) label_col = Inr (segment_rows col)"
    using assms(1,2) by (rule find_label_segments_ok)
  have q: "filter (\<lambda>s. seg_label s \<noteq> Num 0) (segment_rows col) = []"
    using assms(3) by (simp add: qualifying_def)
  show ?thesis
    by (simp add: get_mean_intensities_def f q canonical_labels_def Let_def)
qed

lemma get_mean_intensities_per_label:
  assumes "map_of df label_col = Some col" and "col \<noteq> []" and "qualifying col \<noteq> []"
    and "map_of df ''Intensity'' = Some icol" and "\<forall>c \<in> set icol. \<exists>r. c = Num r"
    and "groupby_label (map_labels mapping (qualifying col)) \<noteq> []"
  shows "get_mean_intensities (DataFrame df) mapping True thr label_col
         = Inr (PerLabelIntensity
              (map (\<lambda>l. (l,
                      if label_group l (map_labels mapping (qualifying col)) = [] then 0
                      else projr (get_intensities_per_segments
                                    (label_group l (map_labels mapping (qualifying col))) df thr)))
                 (canonical_labels mapping)))"
proof -
  let ?segs = "map_labels mapping (qualifying col)"
  have f: "find_label_segments (DataFrame df) label_col = Inr (segment_rows col)"
    using assms(1,2) by (rule find_label_segments_ok)
  have q: "filter (\<lambda>s. seg_label s \<noteq> Num 0) (segment_rows col) \<noteq> []"
    using assms(3) by (simp add: qualifying_def)
  have g: "groupby_label (map_labels mapping (filter (\<lambda>s. seg_label s \<noteq> Num 0) (segment_rows col))) \<noteq> []"
    using assms(6) by (simp add: qualifying_def)
  have a: "apply_groups (\<lambda>x. get_intensities_per_segments x df thr) (groupby_label ?segs)
           = Inr (map (\<lambda>kg. (fst kg, projr (get_intensities_per_segments (snd kg) df thr)))
                    (groupby_label ?segs))"
    by (rule apply_groups_ok) (use get_intensities_per_segments_ok[OF assms(4,5)] in blast)
  have r: "reindex (canonical_labels mapping) 0
             (map (\<lambda>kg. (fst kg, projr (get_intensities_per_segments (snd kg) df thr)))
                (groupby_label ?segs))
           = map (\<lambda>l. (l, if label_group l ?segs = [] then 0
                          else projr (get_intensities_per_segments (label_group l ?segs) df thr)))
               (canonical_labels mapping)"
    by (rule reindex_groupby)
  show ?thesis
    unfolding get_mean_intensities_def
    using a r g by (simp add: f q canonical_labels_def qualifying_def Let_def)
qed

section \<open>Segments whose label is no key of the mapping\<close>

lemma label_group_map_labels_Some:
  "label_group l (map_labels (Some m) segs)
   = map (relabel (map_of m)) (filter (\<lambda>s. map_of m (seg_label s) = Some l) segs)"
  by (simp add: label_group_def map_labels_def filter_map comp_def relabel_def)

lemma relabel_fields:
  "seg_start (relabel f s) = seg_start s" "seg_end (relabel f s) = seg_end s"
  "seg_duration (relabel f s) = seg_duration s" "seg_label (relabel f s) = f (seg_label s)"
  by (simp_all add: relabel_def)

lemma intensities_per_segment_relabel:
  "intensities_per_segment (map (relabel f) segs) df thr = intensities_per_segment segs df thr"
  by (induction segs) (simp_all add: relabel_fields cong: sum.case_cong option.case_cong cell.case_cong)

lemma get_intensities_per_segments_relabel:
  "get_intensities_per_segments (map (relabel f) segs) df thr
   = get_intensities_per_segments segs df thr"
  by (simp add: get_intensities_per_segments_def intensities_per_segment_relabel)

lemma length_filter_disjoint:
  "(\<And>x. \<not> (P x \<and> Q x)) \<Longrightarrow>
   length (filter (\<lambda>x. P x \<or> Q x) xs) = length (filter P xs) + length (filter Q xs)"
  by (induction xs) auto

lemma sum_counts_distinct:
  "distinct ls \<Longrightarrow>
   (\<Sum>l\<leftarrow>ls. int (length (filter (\<lambda>s. f s = Some l) xs)))
   = int (length (filter (\<lambda>s. \<exists>l \<in> set ls. f s = Some l) xs))"
proof (induction ls)
  case Nil
  then show ?case by simp
next
  case (Cons l ls)
  have "length (filter (\<lambda>s. f s = Some l \<or> (\<exists>l' \<in> set ls. f s = Some l')) xs)
        = length (filter (\<lambda>s. f s = Some l) xs)
          + length (filter (\<lambda>s. \<exists>l' \<in> set ls. f s = Some l') xs)"
    by (rule length_filter_disjoint) (use Cons.prems in auto)
  then show ?case using Cons by simp
qed

lemma mapped_iff_value:
  "(\<exists>l \<in> set (dict_values m). map_of m k = Some l) \<longleftrightarrow> map_of m k \<noteq> None"
proof
  assume "\<exists>l \<in> set (dict_values m). map_of m k = Some l"
  then show "map_of m k \<noteq> None" by auto
next
  assume "map_of m k \<noteq> None"
  then obtain v where v: "map_of m k = Some v" by blast
  then have "(k, v) \<in> set m" by (rule map_of_SomeD)
  then have "v \<in> set (dict_values m)" by (force simp: dict_values_def)
  then show "\<exists>l \<in> set (dict_values m). map_of m k = Some l" using v by blast
qed

lemma per_label_counts_sum:
  assumes "distinct (dict_values m)"
  shows "(\<Sum>l\<leftarrow>dict_values m. int (length (filter (\<lambda>s. map_of m (seg_label s) = Some l) segs)))
         + int (length (filter (\<lambda>s. map_of m (seg_label s) = None) segs))
         = int (length segs)"
proof -
  have "(\<Sum>l\<leftarrow>dict_values m. int (length (filter (\<lambda>s. map_of m (seg_label s) = Some l) segs)))
        = int (length (filter (\<lambda>s. \<exists>l \<in> set (dict_values m). map_of m (seg_label s) = Some l) segs))"
    using assms by (rule sum_counts_distinct)
  also have "\<dots> = int (length (filter (\<lambda>s. \<not> map_of m (seg_label s) = None) segs))"
    by (simp add: mapped_iff_value)
  finally show ?thesis
    using sum_length_filter_compl[of "\<lambda>s. map_of m (seg_label s) = None" segs] by simp
qed

section \<open>Zero fill of the per-label outputs\<close>

lemma count_zero_fill:
  assumes "map_of df ''pred'' = Some col" and "col \<noteq> []"
  shows "\<exists>rows. get_num_expressions (DataFrame df) mapping True = Inr (PerLabelCount rows)
           \<and> map fst rows = canonical_labels mapping
           \<and> (\<forall>r \<in> set rows.
                 label_group (fst r) (map_labels mapping (qualifying col)) = [] \<longrightarrow> snd r = 0)"
proof -
  let ?rows = "map (\<lambda>l. (l, int (length (label_group l (map_labels mapping (qualifying col))))))
                 (canonical_labels mapping)"
  have "get_num_expressions (DataFrame df) mapping True = Inr (PerLabelCount ?rows)"
    using assms by (rule get_num_expressions_per_label)
  moreover have "map fst ?rows = canonical_labels mapping"
    by (simp add: comp_def)
  moreover have "\<forall>r \<in> set ?rows.
                 label_group (fst r) (map_labels mapping (qualifying col)) = [] \<longrightarrow> snd r = 0"
    by auto
  ultimately show ?thesis by blast
qed

lemma duration_zero_fill:
  assumes "map_of df ''pred'' = Some col" and "col \<noteq> []"
    and "average \<or> qualifying col = []"
  shows "\<exists>rows. get_expression_duration (DataFrame df) mapping average True
                  = Inr (LabelledDurations rows)
           \<and> map fst rows = map Some (canonical_labels mapping)
           \<and> (\<forall>r \<in> set rows. \<forall>l.
                 fst r = Some l \<and> label_group l (map_labels mapping (qualifying col)) = []
                 \<longrightarrow> snd r = 0)"
proof (cases "qualifying col = []")
  case True
  let ?rows = "map (\<lambda>l. (Some l, 0::real)) (canonical_labels mapping)"
  have "get_expression_duration (DataFrame df) mapping average True = Inr (LabelledDurations ?rows)"
    using assms(1,2) True by (rule get_expression_duration_empty)
  moreover have "map fst ?rows = map Some (canonical_labels mapping)"
    by (simp add: comp_def)
  moreover have "\<forall>r \<in> set ?rows. \<forall>l.
                 fst r = Some l \<and> label_group l (map_labels mapping (qualifying col)) = []
                 \<longrightarrow> snd r = 0"
    by auto
  ultimately show ?thesis by blast
next
  case False
  then have av: "average" using assms(3) by simp
  let ?rows = "map (\<lambda>l. (Some l,
                      if label_group l (map_labels mapping (qualifying col)) = [] then 0
                      else windows_to_seconds
                             (mean (map (\<lambda>s. real_of_int (seg_duration s))
                                      (label_group l (map_labels mapping (qualifying col))))) 25 5))
                 (canonical_labels mapping)"
  have "get_expression_duration (DataFrame df) mapping average True = Inr (LabelledDurations ?rows)"
    using get_expression_duration_average[OF assms(1,2) False] av by simp
  moreover have "map fst ?rows = map Some (canonical_labels mapping)"
    by (simp add: comp_def)
  moreover have "\<forall>r \<in> set ?rows. \<forall>l.
                 fst r = Some l \<and> label_group l (map_labels mapping (qualifying col)) = []
                 \<longrightarrow> snd r = 0"
    by auto
  ultimately show ?thesis by blast
qed

lemma intensity_zero_fill:
  assumes "map_of df label_col = Some col" and "col \<noteq> []"
    and "qualifying col = []
         \<or> (map_of df ''Intensity'' = Some icol \<and> (\<forall>c \<in> set icol. \<exists>x. c = Num x)
            \<and> groupby_label (map_labels mapping (qualifying col)) \<noteq> [])"
  shows "\<exists>rows. get_mean_intensities (DataFrame df) mapping True thr label_col
                  = Inr (PerLabelIntensity rows)
           \<and> map fst rows = canonical_labels mapping
           \<and> (\<forall>r \<in> set rows.
                 label_group (fst r) (map_labels mapping (qualifying col)) = [] \<longrightarrow> snd r = 0)"
proof (cases "qualifying col = []")
  case True
  let ?rows = "map (\<lambda>l. (l, 0::real)) (canonical_labels mapping)"
  have "get_mean_intensities (DataFrame df) mapping True thr label_col = Inr (PerLabelIntensity ?rows)"
    using assms(1,2) True by (rule get_mean_intensities_empty)
  moreover have "map fst ?rows = canonical_labels mapping"
    by (simp add: comp_def)
  moreover have "\<forall>r \<in> set ?rows.
                 label_group (fst r) (map_labels mapping (qualifying col)) = [] \<longrightarrow> snd r = 0"
    by auto
  ultimately show ?thesis by blast
next
  case False
  then have i: "map_of df ''Intensity'' = Some icol" "\<forall>c \<in> set icol. \<exists>x. c = Num x"
    "groupby_label (map_labels mapping (qualifying col)) \<noteq> []"
    using assms(3) by simp_all
  let ?rows = "map (\<lambda>l. (l,
                      if label_group l (map_labels mapping (qualifying col)) = [] then 0
                      else projr (get_intensities_per_segments
                                    (label_group l (map_labels mapping (qualifying col))) df thr)))
                 (canonical_labels mapping)"
  have "get_mean_intensities (DataFrame df) mapping True thr label_col = Inr (PerLabelIntensity ?rows)"
    using assms(1,2) False i by (rule get_mean_intensities_per_label)
  moreover have "map fst ?rows = canonical_labels mapping"
    by (simp add: comp_def)
  moreover have "\<forall>r \<in> set ?rows.
                 label_group (fst r) (map_labels mapping (qualifying col)) = [] \<longrightarrow> snd r = 0"
    by auto
  ultimately show ?thesis by blast
qed


text \<open>The definitions unfolded to evaluate the model on a concrete table.\<close>

lemmas eval_defs =
  find_label_segments_def get_segment_label_def getitem_def
  columns_def get_loc_def find_subsegments_indices_def flatnonzero_def iloc_rows_def
  map_labels_def relabel_def groupby_label_def reindex_def List.map_filter_def
  get_intensities_per_segments_def series_max_def mean_def Let_def max_def
  dict_values_def windows_to_seconds_def set_range_def iloc_set_first_def
  qualifying_def segment_rows_def changes_of_def label_group_def canonical_labels_def


text \<open>
  Claim C3, as amended. With \<open>per_label=True\<close>, on a table whose label column is present
  with at least one row, the count aggregator always, the duration aggregator when
  \<open>average=True\<close> or when no segment qualifies, and the intensity aggregator when no
  segment qualifies or when the Intensity column is present and numeric and some qualifying
  segment keeps a label, return exactly one row per entry of the canonical label list
  (\<open>mapping.values()\<close> if a mapping is given, else \<open>[1, 2, 3]\<close>), in that order, with
  value 0 for every label that no qualifying segment bears. With \<open>average=False\<close> and a
  qualifying segment the duration aggregator returns one row per segment instead.
\<close>

theorem per_label_zero_fill:
  assumes "map_of df ''pred'' = Some col" and "col \<noteq> []"
    and "average \<or> qualifying col = []"
    and "map_of idf label_col = Some lcol" and "lcol \<noteq> []"
    and "qualifying lcol = []
         \<or> (map_of idf ''Intensity'' = Some icol \<and> (\<forall>c \<in> set icol. \<exists>x. c = Num x)
            \<and> groupby_label (map_labels mapping (qualifying lcol)) \<noteq> [])"
  shows "\<exists>crows drows irows.
           get_num_expressions (DataFrame df) mapping True = Inr (PerLabelCount crows)
         \<and> get_expression_duration (DataFrame df) mapping average True
             = Inr (LabelledDurations drows)
         \<and> get_mean_intensities (DataFrame idf) mapping True thr label_col
             = Inr (PerLabelIntensity irows)
         \<and> map fst crows = canonical_labels mapping
         \<and> map fst drows = map Some (canonical_labels mapping)
         \<and> map fst irows = canonical_labels mapping
         \<and> (\<forall>r \<in> set crows.
               label_group (fst r) (map_labels mapping (qualifying col)) = [] \<longrightarrow> snd r = 0)
         \<and> (\<forall>r \<in> set drows. \<forall>l.
               fst r = Some l \<and> label_group l (map_labels mapping (qualifying col)) = []
               \<longrightarrow> snd r = 0)
         \<and> (\<forall>r \<in> set irows.
               label_group (fst r) (map_labels mapping (qualifying lcol)) = [] \<longrightarrow> snd r = 0)
         \<and> (qualifying col \<noteq> [] \<longrightarrow>
               get_expression_duration (DataFrame df) mapping False True
               = Inr (LabelledDurations
                    (map (\<lambda>s. (seg_label s, windows_to_seconds (real_of_int (seg_duration s)) 25 5))
                       (map_labels mapping (qualifying col)))))"
proof -
  obtain crows where c:
    "get_num_expressions (DataFrame df) mapping True = Inr (PerLabelCount crows)"
    "map fst crows = canonical_labels mapping"
    "\<forall>r \<in> set crows.
       label_group (fst r) (map_labels mapping (qualifying col)) = [] \<longrightarrow> snd r = 0"
    using count_zero_fill[OF assms(1,2), of mapping] by blast
  obtain drows where d:
    "get_expression_duration (DataFrame df) mapping average True = Inr (LabelledDurations drows)"
    "map fst drows = map Some (canonical_labels mapping)"
    "\<forall>r \<in> set drows. \<forall>l.
       fst r = Some l \<and> label_group l (map_labels mapping (qualifying col)) = [] \<longrightarrow> snd r = 0"
    using duration_zero_fill[OF assms(1,2,3), of mapping] by blast
  obtain irows where i:
    "get_mean_intensities (DataFrame idf) mapping True thr label_col = Inr (PerLabelIntensity irows)"
    "map fst irows = canonical_labels mapping"
    "\<forall>r \<in> set irows.
       label_group (fst r) (map_labels mapping (qualifying lcol)) = [] \<longrightarrow> snd r = 0"
    using intensity_zero_fill[OF assms(4,5,6), of thr] by blast
  have p: "qualifying col \<noteq> [] \<longrightarrow>
               get_expression_duration (DataFrame df) mapping False True
               = Inr (LabelledDurations
                    (map (\<lambda>s. (seg_label s, windows_to_seconds (real_of_int (seg_duration s)) 25 5))
                       (map_labels mapping (qualifying col))))"
    using get_expression_duration_per_segment[OF assms(1,2)] by blast
  show ?thesis
    apply (rule exI[of _ crows])
    apply (rule exI[of _ drows])
    apply (rule exI[of _ irows])
    apply (intro conjI)
    apply (rule c(1))
    apply (rule d(1))
    apply (rule i(1))
    apply (rule c(2))
    apply (rule d(2))
    apply (rule i(2))
    apply (rule c(3))
    apply (rule d(3))
    apply (rule i(3))
    apply (rule p)
    done
qed


theorem per_label_zero_fill_witness:
  "map_of [(''pred'', [Num 1, Num 0, Num 1])] ''pred'' = Some [Num 1, Num 0, Num 1]
   \<and> [Num 1, Num 0, Num 1] \<noteq> []
   \<and> (True \<or> qualifying [Num 1, Num 0, Num 1] = [])
   \<and> map_of intensity_example ''Predictions'' = Some [Num 0, Num 0, Num 1, Num 1, Num 1, Num 0]
   \<and> [Num 0, Num 0, Num 1, Num 1, Num 1, Num 0] \<noteq> []
   \<and> (qualifying [Num 0, Num 0, Num 1, Num 1, Num 1, Num 0] = []
         \<or> (map_of intensity_example ''Intensity''
               = Some [Num 0.1, Num 0.1, Num 0.9, Num 0.3, Num 0.2, Num 0.1]
            \<and> (\<forall>c \<in> set [Num 0.1, Num 0.1, Num 0.9, Num 0.3, Num 0.2, Num 0.1]. \<exists>x. c = Num x)
            \<and> groupby_label (map_labels None (qualifying [Num 0, Num 0, Num 1, Num 1, Num 1, Num 0]))
                 \<noteq> []))
   \<and> (\<exists>crows drows irows.
           get_num_expressions (DataFrame [(''pred'', [Num 1, Num 0, Num 1])]) None True
             = Inr (PerLabelCount crows)
         \<and> get_expression_duration (DataFrame [(''pred'', [Num 1, Num 0, Num 1])]) None True True
             = Inr (LabelledDurations drows)
         \<and> get_mean_intensities (DataFrame intensity_example) None True 0.95 ''Predictions''
             = Inr (PerLabelIntensity irows)
         \<and> map fst crows = canonical_labels None
         \<and> map fst drows = map Some (canonical_labels None)
         \<and> map fst irows = canonical_labels None
         \<and> (\<forall>r \<in> set crows.
               label_group (fst r) (map_labels None (qualifying [Num 1, Num 0, Num 1])) = []
               \<longrightarrow> snd r = 0)
         \<and> (\<forall>r \<in> set drows. \<forall>l.
               fst r = Some l
               \<and> label_group l (map_labels None (qualifying [Num 1, Num 0, Num 1])) = []
               \<longrightarrow> snd r = 0)
         \<and> (\<forall>r \<in> set irows.
               label_group (fst r)
                 (map_labels None (qualifying [Num 0, Num 0, Num 1, Num 1, Num 1, Num 0])) = []
               \<longrightarrow> snd r = 0)
         \<and> (qualifying [Num 1, Num 0, Num 1] \<noteq> [] \<longrightarrow>
               get_expression_duration (DataFrame [(''pred'', [Num 1, Num 0, Num 1])]) None False True
               = Inr (LabelledDurations
                    (map (\<lambda>s. (seg_label s, windows_to_seconds (real_of_int (seg_duration s)) 25 5))
                       (map_labels None (qualifying [Num 1, Num 0, Num 1]))))))"
proof -
  have h1: "map_of [(''pred'', [Num 1, Num 0, Num 1])] ''pred'' = Some [Num 1, Num 0, Num 1]"
    by simp
  have h2: "[Num 1, Num 0, Num 1] \<noteq> []"
    by simp
  have h3: "True \<or> qualifying [Num 1, Num 0, Num 1] = []"
    by simp
  have h4: "map_of intensity_example ''Predictions'' = Some [Num 0, Num 0, Num 1, Num 1, Num 1, Num 0]"
    by (simp add: intensity_example_def)
  have h5: "[Num 0, Num 0, Num 1, Num 1, Num 1, Num 0] \<noteq> []"
    by simp
  have h6: "qualifying [Num 0, Num 0, Num 1, Num 1, Num 1, Num 0] = []
         \<or> (map_of intensity_example ''Intensity''
               = Some [Num 0.1, Num 0.1, Num 0.9, Num 0.3, Num 0.2, Num 0.1]
            \<and> (\<forall>c \<in> set [Num 0.1, Num 0.1, Num 0.9, Num 0.3, Num 0.2, Num 0.1]. \<exists>x. c = Num x)
            \<and> groupby_label (map_labels None (qualifying [Num 0, Num 0, Num 1, Num 1, Num 1, Num 0]))
                 \<noteq> [])"
  proof -
    have n: "\<forall>c \<in> set [Num 0.1, Num 0.1, Num 0.9, Num 0.3, Num 0.2, Num 0.1]. \<exists>x. c = Num x"
      by (simp only: list.set ball_simps cell.inject simp_thms)
    have i: "map_of intensity_example ''Intensity''
               = Some [Num 0.1, Num 0.1, Num 0.9, Num 0.3, Num 0.2, Num 0.1]"
      by (simp add: intensity_example_def)
    have g: "groupby_label (map_labels None (qualifying [Num 0, Num 0, Num 1, Num 1, Num 1, Num 0]))
                 \<noteq> []"
      by (simp add: eval_defs)
    show ?thesis using n i g by blast
  qed
  show ?thesis
    using h1 h2 h3 h4 h5 h6 per_label_zero_fill[OF h1 h2 h3 h4 h5 h6, of "0.95"]
    by (intro conjI)
qed

text \<open>
  Claim C3 as stated fails for the duration aggregator in its default mode
  (\<open>average=False\<close>, per label): on the labels \<open>[1, 0, 1]\<close> it returns two rows, both
  for label 1, and no row for the labels 2 and 3.
\<close>

theorem duration_rows_per_segment_counterexample:
  "get_expression_duration (DataFrame [(''pred'', [Num 1, Num 0, Num 1])]) None False True
     = Inr (LabelledDurations [(Some (Num 1), 1 / 2), (Some (Num 1), 1 / 2)])
   \<and> map fst [(Some (Num 1), 1 / 2 :: real), (Some (Num 1), 1 / 2)]
       \<noteq> map Some (canonical_labels None)"
  by (simp add: get_expression_duration_def eval_defs)

section \<open>Mappings that omit a label of the data\<close>

lemma count_per_label_mapping:
  assumes "map_of df ''pred'' = Some col" and "col \<noteq> []"
  shows "get_num_expressions (DataFrame df) (Some m) True
         = Inr (PerLabelCount
              (map (\<lambda>l. (l, int (length (filter (\<lambda>s. map_of m (seg_label s) = Some l)
                                          (qualifying col)))))
                 (dict_values m)))"
  using get_num_expressions_per_label[OF assms, of "Some m"]
  by (simp add: label_group_map_labels_Some canonical_labels_def)

lemma duration_average_mapping:
  assumes "map_of df ''pred'' = Some col" and "col \<noteq> []" and "qualifying col \<noteq> []"
  shows "get_expression_duration (DataFrame df) (Some m) True True
         = Inr (LabelledDurations
              (map (\<lambda>l. (Some l,
                      if filter (\<lambda>s. map_of m (seg_label s) = Some l) (qualifying col) = [] then 0
                      else windows_to_seconds
                             (mean (map (\<lambda>s. real_of_int (seg_duration s))
                                      (filter (\<lambda>s. map_of m (seg_label s) = Some l)
                                         (qualifying col)))) 25 5))
                 (dict_values m)))"
  using get_expression_duration_average[OF assms, of "Some m"]
  by (simp add: label_group_map_labels_Some canonical_labels_def comp_def relabel_fields)

lemma duration_per_segment_mapping:
  assumes "map_of df ''pred'' = Some col" and "col \<noteq> []" and "qualifying col \<noteq> []"
  shows "get_expression_duration (DataFrame df) (Some m) False True
         = Inr (LabelledDurations
              (map (\<lambda>s. (map_of m (seg_label s),
                         windows_to_seconds (real_of_int (seg_duration s)) 25 5))
                 (qualifying col)))"
  using get_expression_duration_per_segment[OF assms, of "Some m" True]
  by (simp add: map_labels_def comp_def relabel_fields)

lemma intensity_per_label_mapping:
  assumes "map_of df label_col = Some col" and "col \<noteq> []"
    and "map_of df ''Intensity'' = Some icol" and "\<forall>c \<in> set icol. \<exists>x. c = Num x"
    and "v \<in> set (qualifying col)" and "map_of m (seg_label v) \<noteq> None"
  shows "\<exists>rows. get_mean_intensities (DataFrame df) (Some m) True thr label_col
                  = Inr (PerLabelIntensity rows)
           \<and> map fst rows = dict_values m
           \<and> (\<forall>r \<in> set rows.
                 (filter (\<lambda>s. map_of m (seg_label s) = Some (fst r)) (qualifying col) = []
                    \<longrightarrow> snd r = 0)
               \<and> (filter (\<lambda>s. map_of m (seg_label s) = Some (fst r)) (qualifying col) \<noteq> []
                    \<longrightarrow> get_intensities_per_segments
                          (filter (\<lambda>s. map_of m (seg_label s) = Some (fst r)) (qualifying col))
                          df thr = Inr (snd r)))"
proof -
  let ?g = "\<lambda>l. filter (\<lambda>s. map_of m (seg_label s) = Some l) (qualifying col)"
  let ?rows = "map (\<lambda>l. (l, if ?g l = [] then 0
                          else projr (get_intensities_per_segments (?g l) df thr)))
                 (dict_values m)"
  have q: "qualifying col \<noteq> []" using assms(5) by auto
  have a: "seg_label (relabel (map_of m) v) \<noteq> None"
    using assms(6) by (simp add: relabel_fields)
  have b: "relabel (map_of m) v \<in> set (map_labels (Some m) (qualifying col))"
    using assms(5) by (simp add: map_labels_def)
  have g: "groupby_label (map_labels (Some m) (qualifying col)) \<noteq> []"
  proof
    assume "groupby_label (map_labels (Some m) (qualifying col)) = []"
    then have "\<forall>s \<in> set (map_labels (Some m) (qualifying col)). seg_label s = None"
      by (simp only: groupby_label_empty_iff)
    then have "seg_label (relabel (map_of m) v) = None"
      using b by (rule bspec)
    then show False using a by simp
  qed
  have 1: "get_mean_intensities (DataFrame df) (Some m) True thr label_col
           = Inr (PerLabelIntensity ?rows)"
    using get_mean_intensities_per_label[OF assms(1,2) q assms(3,4) g, of thr]
    by (simp add: label_group_map_labels_Some canonical_labels_def
                  get_intensities_per_segments_relabel)
  have 2: "map fst ?rows = dict_values m"
    by (simp add: comp_def)
  have ok: "Inr (projr (get_intensities_per_segments segs df thr))
            = get_intensities_per_segments segs df thr" for segs :: "cell segment list"
    using get_intensities_per_segments_ok[OF assms(3,4), of segs thr] by auto
  have 3: "\<forall>r \<in> set ?rows.
             (?g (fst r) = [] \<longrightarrow> snd r = 0)
           \<and> (?g (fst r) \<noteq> [] \<longrightarrow> get_intensities_per_segments (?g (fst r)) df thr = Inr (snd r))"
    using ok by auto
  show ?thesis using 1 2 3 by blast
qed

text \<open>
  Let a mapping be supplied whose keys omit the label of some qualifying segment. That
  segment is mapped to a missing value. The per-label count, the per-label mean duration
  (\<open>average=True\<close>) and, when the Intensity column is present and numeric and some
  qualifying segment keeps a label, the per-label mean intensity return without error one
  row per entry of \<open>mapping.values()\<close>, each computed from exactly the segments whose
  label is a key mapped to that entry, so the unmapped segments contribute to no row; the
  total count still counts them, and is strictly larger than the sum of the per-label
  counts when the values of the mapping are distinct. With \<open>average=False\<close> the duration
  aggregator returns its per-segment rows, the unmapped ones with a missing label.
\<close>

theorem unmapped_labels_dropped:
  assumes "map_of df ''pred'' = Some col" and "col \<noteq> []"
    and "u \<in> set (qualifying col)" and "map_of m (seg_label u) = None"
    and "map_of idf label_col = Some lcol" and "lcol \<noteq> []"
    and "map_of idf ''Intensity'' = Some icol" and "\<forall>c \<in> set icol. \<exists>x. c = Num x"
    and "v \<in> set (qualifying lcol)" and "map_of m (seg_label v) \<noteq> None"
  shows "seg_label (relabel (map_of m) u) = None
       \<and> get_num_expressions (DataFrame df) (Some m) True
           = Inr (PerLabelCount
                (map (\<lambda>l. (l, int (length (filter (\<lambda>s. map_of m (seg_label s) = Some l)
                                            (qualifying col)))))
                   (dict_values m)))
       \<and> get_num_expressions (DataFrame df) (Some m) False
           = Inr (TotalCount (int (length (qualifying col))))
       \<and> (distinct (dict_values m) \<longrightarrow>
            (\<Sum>l\<leftarrow>dict_values m. int (length (filter (\<lambda>s. map_of m (seg_label s) = Some l)
                                               (qualifying col))))
            < int (length (qualifying col)))
       \<and> get_expression_duration (DataFrame df) (Some m) True True
           = Inr (LabelledDurations
                (map (\<lambda>l. (Some l,
                        if filter (\<lambda>s. map_of m (seg_label s) = Some l) (qualifying col) = [] then 0
                        else windows_to_seconds
                               (mean (map (\<lambda>s. real_of_int (seg_duration s))
                                        (filter (\<lambda>s. map_of m (seg_label s) = Some l)
                                           (qualifying col)))) 25 5))
                   (dict_values m)))
       \<and> get_expression_duration (DataFrame df) (Some m) False True
           = Inr (LabelledDurations
                (map (\<lambda>s. (map_of m (seg_label s),
                           windows_to_seconds (real_of_int (seg_duration s)) 25 5))
                   (qualifying col)))
       \<and> (\<exists>rows. get_mean_intensities (DataFrame idf) (Some m) True thr label_col
                    = Inr (PerLabelIntensity rows)
             \<and> map fst rows = dict_values m
             \<and> (\<forall>r \<in> set rows.
                   (filter (\<lambda>s. map_of m (seg_label s) = Some (fst r)) (qualifying lcol) = []
                      \<longrightarrow> snd r = 0)
                 \<and> (filter (\<lambda>s. map_of m (seg_label s) = Some (fst r)) (qualifying lcol) \<noteq> []
                      \<longrightarrow> get_intensities_per_segments
                            (filter (\<lambda>s. map_of m (seg_label s) = Some (fst r)) (qualifying lcol))
                            idf thr = Inr (snd r))))"
proof -
  have q: "qualifying col \<noteq> []" using assms(3) by auto
  have 0: "seg_label (relabel (map_of m) u) = None"
    using assms(4) by (simp add: relabel_fields)
  have nz: "filter (\<lambda>s. map_of m (seg_label s) = None) (qualifying col) \<noteq> []"
    using assms(3,4) by (auto simp: filter_empty_conv)
  have 3: "distinct (dict_values m) \<longrightarrow>
            (\<Sum>l\<leftarrow>dict_values m. int (length (filter (\<lambda>s. map_of m (seg_label s) = Some l)
                                               (qualifying col))))
            < int (length (qualifying col))"
  proof
    assume "distinct (dict_values m)"
    from per_label_counts_sum[OF this, of "qualifying col"] nz
    show "(\<Sum>l\<leftarrow>dict_values m. int (length (filter (\<lambda>s. map_of m (seg_label s) = Some l)
                                               (qualifying col))))
            < int (length (qualifying col))"
      by (cases "filter (\<lambda>s. map_of m (seg_label s) = None) (qualifying col)") simp_all
  qed
  show ?thesis
    apply (intro conjI)
    apply (rule 0)
    apply (rule count_per_label_mapping[OF assms(1,2)])
    apply (rule get_num_expressions_total[OF assms(1,2)])
    apply (rule 3)
    apply (rule duration_average_mapping[OF assms(1,2) q])
    apply (rule duration_per_segment_mapping[OF assms(1,2) q])
    apply (rule intensity_per_label_mapping[OF assms(5,6,7,8,9,10)])
    done
qed


theorem unmapped_labels_dropped_witness:
  "(map_of labels_1_2 ''pred'' = Some [Num 1, Num 2])
   \<and> ([Num 1, Num 2] \<noteq> [])
   \<and> (\<lparr>seg_start = 1, seg_end = 2, seg_duration = 1, seg_label = Num 2\<rparr> \<in> set (qualifying [Num 1, Num 2]))
   \<and> (map_of mapping_a (seg_label \<lparr>seg_start = 1, seg_end = 2, seg_duration = 1, seg_label = Num 2\<rparr>) = None)
   \<and> (map_of labels_1_2 ''pred'' = Some [Num 1, Num 2])
   \<and> ([Num 1, Num 2] \<noteq> [])
   \<and> (map_of labels_1_2 ''Intensity'' = Some [Num 0.5, Num 0.7])
   \<and> (\<lparr>seg_start = 0, seg_end = 1, seg_duration = 1, seg_label = Num 1\<rparr> \<in> set (qualifying [Num 1, Num 2]))
   \<and> (map_of mapping_a (seg_label \<lparr>seg_start = 0, seg_end = 1, seg_duration = 1, seg_label = Num 1\<rparr>) \<noteq> None)
   \<and> (seg_label (relabel (map_of mapping_a) \<lparr>seg_start = 1, seg_end = 2, seg_duration = 1, seg_label = Num 2\<rparr>) = None
       \<and> get_num_expressions (DataFrame labels_1_2) (Some mapping_a) True
           = Inr (PerLabelCount
                (map (\<lambda>l. (l, int (length (filter (\<lambda>s. map_of mapping_a (seg_label s) = Some l)
                                            (qualifying [Num 1, Num 2])))))
                   (dict_values mapping_a)))
       \<and> get_num_expressions (DataFrame labels_1_2) (Some mapping_a) False
           = Inr (TotalCount (int (length (qualifying [Num 1, Num 2]))))
       \<and> distinct (dict_values mapping_a)
       \<and> ((\<Sum>l\<leftarrow>dict_values mapping_a. int (length (filter (\<lambda>s. map_of mapping_a (seg_label s) = Some l)
                                               (qualifying [Num 1, Num 2]))))
            < int (length (qualifying [Num 1, Num 2])))
       \<and> get_expression_duration (DataFrame labels_1_2) (Some mapping_a) True True
           = Inr (LabelledDurations
                (map (\<lambda>l. (Some l,
                        if filter (\<lambda>s. map_of mapping_a (seg_label s) = Some l) (qualifying [Num 1, Num 2]) = [] then 0
                        else windows_to_seconds
                               (mean (map (\<lambda>s. real_of_int (seg_duration s))
                                        (filter (\<lambda>s. map_of mapping_a (seg_label s) = Some l)
                                           (qualifying [Num 1, Num 2])))) 25 5))
                   (dict_values mapping_a)))
       \<and> get_expression_duration (DataFrame labels_1_2) (Some mapping_a) False True
           = Inr (LabelledDurations
                (map (\<lambda>s. (map_of mapping_a (seg_label s),
                           windows_to_seconds (real_of_int (seg_duration s)) 25 5))
                   (qualifying [Num 1, Num 2])))
       \<and> (\<exists>rows. get_mean_intensities (DataFrame labels_1_2) (Some mapping_a) True 0 ''pred''
                    = Inr (PerLabelIntensity rows)
             \<and> map fst rows = dict_values mapping_a
             \<and> (\<forall>r \<in> set rows.
                   (filter (\<lambda>s. map_of mapping_a (seg_label s) = Some (fst r)) (qualifying [Num 1, Num 2]) = []
                      \<longrightarrow> snd r = 0)
                 \<and> (filter (\<lambda>s. map_of mapping_a (seg_label s) = Some (fst r)) (qualifying [Num 1, Num 2]) \<noteq> []
                      \<longrightarrow> get_intensities_per_segments
                            (filter (\<lambda>s. map_of mapping_a (seg_label s) = Some (fst r)) (qualifying [Num 1, Num 2]))
                            labels_1_2 0 = Inr (snd r)))))"
proof -
  have h1: "map_of labels_1_2 ''pred'' = Some [Num 1, Num 2]"
    by (simp add: labels_1_2_def mapping_a_def eval_defs)
  have h2: "[Num 1, Num 2] \<noteq> []"
    by (simp add: labels_1_2_def mapping_a_def eval_defs)
  have h3: "\<lparr>seg_start = 1, seg_end = 2, seg_duration = 1, seg_label = Num 2\<rparr> \<in> set (qualifying [Num 1, Num 2])"
    by (simp add: labels_1_2_def mapping_a_def eval_defs)
  have h4: "map_of mapping_a (seg_label \<lparr>seg_start = 1, seg_end = 2, seg_duration = 1, seg_label = Num 2\<rparr>) = None"
    by (simp add: labels_1_2_def mapping_a_def eval_defs)
  have h5: "map_of labels_1_2 ''pred'' = Some [Num 1, Num 2]"
    by (simp add: labels_1_2_def mapping_a_def eval_defs)
  have h6: "[Num 1, Num 2] \<noteq> []"
    by (simp add: labels_1_2_def mapping_a_def eval_defs)
  have h7: "map_of labels_1_2 ''Intensity'' = Some [Num 0.5, Num 0.7]"
    by (simp add: labels_1_2_def mapping_a_def eval_defs)
  have h8: "\<forall>c \<in> set [Num 0.5, Num 0.7]. \<exists>x. c = Num x"
    by (simp only: list.set ball_simps cell.inject simp_thms)
  have h9: "\<lparr>seg_start = 0, seg_end = 1, seg_duration = 1, seg_label = Num 1\<rparr> \<in> set (qualifying [Num 1, Num 2])"
    by (simp add: labels_1_2_def mapping_a_def eval_defs)
  have h10: "map_of mapping_a (seg_label \<lparr>seg_start = 0, seg_end = 1, seg_duration = 1, seg_label = Num 1\<rparr>) \<noteq> None"
    by (simp add: labels_1_2_def mapping_a_def eval_defs)
  have d: "distinct (dict_values mapping_a)"
    by (simp add: mapping_a_def dict_values_def)
  show ?thesis
    using h1 h2 h3 h4 h5 h6 h7 h9 h10 d
      unmapped_labels_dropped[OF h1 h2 h3 h4 h5 h6 h7 h8 h9 h10, of 0]
    by blast
qed

text \<open>
  When no qualifying segment keeps a label, the per-label intensity raises: there is no
  group left for \<open>groupby("label").apply\<close>, and the zero fill that follows it in the
  code is never reached.
\<close>

lemma get_mean_intensities_all_unmapped:
  assumes "map_of df label_col = Some col" and "col \<noteq> []" and "qualifying col \<noteq> []"
    and "\<forall>s \<in> set (qualifying col). map_of m (seg_label s) = None"
  shows "get_mean_intensities (DataFrame df) (Some m) True thr label_col
         = Inl (ValueError ''cannot insert label, already exists'')"
proof -
  have f: "find_label_segments (DataFrame df) label_col = Inr (segment_rows col)"
    using assms(1,2) by (rule find_label_segments_ok)
  have q: "filter (\<lambda>s. seg_label s \<noteq> Num 0) (segment_rows col) \<noteq> []"
    using assms(3) by (simp add: qualifying_def)
  have "\<forall>s \<in> set (map_labels (Some m) (qualifying col)). seg_label s = None"
    using assms(4) by (simp add: map_labels_def relabel_fields)
  then have "groupby_label (map_labels (Some m) (qualifying col)) = []"
    by (simp only: groupby_label_empty_iff)
  then have g: "groupby_label (map_labels (Some m)
                  (filter (\<lambda>s. seg_label s \<noteq> Num 0) (segment_rows col))) = []"
    by (simp add: qualifying_def)
  show ?thesis
    unfolding get_mean_intensities_def
    by (simp add: f q g Let_def)
qed

text \<open>
  Claim C10. With a mapping whose keys omit a label of the data, the segments of that label
  should be dropped from the per-label output of all three aggregators, which enumerates
  \<open>mapping.values()\<close>, and no error should be raised. With the labels \<open>[1, 2]\<close> and the
  mapping \<open>{5: "A"}\<close>, which omits both, the count and the mean duration return the row
  of \<open>A\<close> with value 0, but the intensity aggregator raises ValueError.
\<close>

theorem intensity_raises_when_every_label_unmapped:
  "get_mean_intensities (DataFrame labels_1_2) (Some mapping_other) True 0 ''pred''
     = Inl (ValueError ''cannot insert label, already exists'')
   \<and> get_num_expressions (DataFrame labels_1_2) (Some mapping_other) True
     = Inr (PerLabelCount [(Str ''A'', 0)])
   \<and> get_expression_duration (DataFrame labels_1_2) (Some mapping_other) True True
     = Inr (LabelledDurations [(Some (Str ''A''), 0)])"
  by (simp add: labels_1_2_def mapping_other_def get_mean_intensities_def
        get_num_expressions_def get_expression_duration_def eval_defs)

text \<open>The definitions unfolded to evaluate the grouped count on a concrete table.\<close>

lemmas grouped_defs =
  get_grouped_num_expressions_def groupby_num_expressions_def groupby_def nrows_def
  take_rows_def frame_of_rows_def reset_index_def count_rows_def normalize_data_def
  normalize_group_def set_columns_def set_column_def concat_frames_def groupby_sum_def
  column_sum_def less_cell_def initial_store_def get_num_expressions_def centering_def

section \<open>The intensity threshold\<close>

text \<open>
  With \<open>group_labels=False\<close> the result does not depend on the threshold of the caller.
\<close>

lemma get_mean_intensities_threshold_unused:
  "get_mean_intensities intensity_data mapping False intensity_threshold label_col
   = get_mean_intensities intensity_data mapping False 0 label_col"
  by (simp add: get_mean_intensities_def Let_def split: sum.splits pyobj.splits)

text \<open>
  Claim C4. A segment should enter the mean only if its largest intensity exceeds the
  threshold of the caller, in both modes. On the table of scenario C with threshold
  \<open>0.95\<close> the only segment has intensity \<open>0.9\<close>: per label the code excludes it and
  returns 0 for every label, but with \<open>per_label=False\<close> it returns \<open>0.9\<close>, because
  that call of \<open>get_intensities_per_segments\<close> is not given the threshold.
\<close>

theorem overall_mean_intensity_ignores_threshold:
  "get_mean_intensities (DataFrame intensity_example) None False 0.95 ''Predictions''
     = Inr (MeanIntensity 0.9)
   \<and> get_mean_intensities (DataFrame intensity_example) None True 0.95 ''Predictions''
     = Inr (PerLabelIntensity [(Num 1, 0), (Num 2, 0), (Num 3, 0)])"
  by (simp add: intensity_example_def get_mean_intensities_def eval_defs)

section \<open>The grouped count with normalization\<close>

lemma normalize_with_video_unbound:
  "''Video'' \<in> set (st grouping_columns) \<Longrightarrow>
   get_grouped_num_expressions st results grouping_columns mapping group_labels True scaler
   = (Inl (UnboundLocalError ''normalization_grouping_cols''), st)"
  by (simp add: get_grouped_num_expressions_def)

text \<open>
  Claim C5. With \<open>normalize=True\<close> the counts should be computed at a finer key that
  includes \<open>Video\<close>, rescaled per subject and summed back, for every grouping key. When
  the grouping key already contains \<open>Video\<close>, as the default one does, the code reads
  \<open>normalization_grouping_cols\<close> before any assignment and raises UnboundLocalError,
  whatever the table, the mapping and the scaler are.
\<close>

theorem normalize_default_grouping_unbound:
  "get_grouped_num_expressions initial_store results DefaultList mapping group_labels True scaler
   = (Inl (UnboundLocalError ''normalization_grouping_cols''), initial_store)"
  by (simp add: get_grouped_num_expressions_def initial_store_def)

section \<open>filter\_predictions\<close>

text \<open>
  When \<open>pred\<close> is the first column, exactly the windows of the short expression
  segments are set to 0 in it and nothing else changes.
\<close>

lemma fold_iloc_set_first:
  "fold (\<lambda>row fr. iloc_set_first fr (seg_start row) (seg_end row) v) segs ((n, col) # rest)
   = (n, fold (\<lambda>row c. set_range c (seg_start row) (seg_end row) v) segs col) # rest"
  by (induction segs arbitrary: col) (simp_all add: iloc_set_first_def)

lemma length_set_range: "length (set_range col s e v) = length col"
  by (simp add: set_range_def)

lemma nth_set_range:
  "i < length col \<Longrightarrow> set_range col s e v ! i = (if s \<le> i \<and> i < e then v else col ! i)"
  by (simp add: set_range_def)

lemma length_fold_set_range:
  "length (fold (\<lambda>row c. set_range c (seg_start row) (seg_end row) v) segs col) = length col"
  by (induction segs arbitrary: col) (simp_all add: length_set_range)

lemma nth_fold_set_range:
  "i < length col \<Longrightarrow>
   fold (\<lambda>row c. set_range c (seg_start row) (seg_end row) v) segs col ! i
   = (if \<exists>row \<in> set segs. seg_start row \<le> i \<and> i < seg_end row then v else col ! i)"
proof (induction segs arbitrary: col)
  case Nil
  then show ?case by simp
next
  case (Cons row segs)
  have "i < length (set_range col (seg_start row) (seg_end row) v)"
    using Cons.prems by (simp add: length_set_range)
  from Cons.IH[OF this] show ?case
    using Cons.prems by (auto simp: nth_set_range)
qed

lemma filter_predictions_pred_first:
  assumes "col \<noteq> []"
  shows "\<exists>new. filter_predictions ((''pred'', col) # rest) window_threshold
                 = Inr ((''pred'', new) # rest)
           \<and> length new = length col
           \<and> (\<forall>i < length col.
                 new ! i = (if \<exists>s \<in> set (qualifying col).
                                  seg_duration s \<le> window_threshold
                                  \<and> seg_start s \<le> i \<and> i < seg_end s
                            then Num 0 else col ! i))"
proof -
  let ?short = "filter (\<lambda>s. seg_duration s \<le> window_threshold) (qualifying col)"
  let ?new = "fold (\<lambda>row c. set_range c (seg_start row) (seg_end row) (Num 0)) ?short col"
  have f: "find_label_segments (DataFrame ((''pred'', col) # rest)) ''pred'' = Inr (segment_rows col)"
    using assms by (intro find_label_segments_ok) simp_all
  have 1: "filter_predictions ((''pred'', col) # rest) window_threshold
           = Inr ((''pred'', ?new) # rest)"
    by (simp add: filter_predictions_def f Let_def qualifying_def fold_iloc_set_first)
  have 2: "length ?new = length col"
    by (rule length_fold_set_range)
  have 3: "\<forall>i < length col.
             ?new ! i = (if \<exists>s \<in> set (qualifying col).
                              seg_duration s \<le> window_threshold
                              \<and> seg_start s \<le> i \<and> i < seg_end s
                         then Num 0 else col ! i)"
    by (auto simp: nth_fold_set_range)
  show ?thesis using 1 2 3 by blast
qed

text \<open>
  Claim C6. \<open>filter_predictions\<close> should overwrite the \<open>pred\<close> values of the short
  expression segments and leave every other cell unchanged. The code writes into the first
  column of the table, whatever its name: when \<open>pred\<close> is the second column, the first
  column is overwritten at the windows of the short segment and \<open>pred\<close> is unchanged.
\<close>

theorem filter_predictions_overwrites_first_column:
  "filter_predictions [(''Subject'', [Num 7, Num 7, Num 7]), (''pred'', [Num 0, Num 1, Num 0])] 2
   = Inr [(''Subject'', [Num 7, Num 0, Num 7]), (''pred'', [Num 0, Num 1, Num 0])]"
  by (simp add: filter_predictions_def eval_defs)

section \<open>Successive calls of the grouped count\<close>

text \<open>
  A call changes a list only through \<open>grouping_columns.append("label")\<close>, which is
  reached with \<open>normalize\<close> and \<open>group_labels\<close> on a list without \<open>Video\<close>; the
  default list contains \<open>Video\<close> and is never changed.
\<close>

lemma store_unchanged_unless_appended:
  "\<not> (normalize' \<and> group_labels \<and> ''Video'' \<notin> set (st grouping_columns)) \<Longrightarrow>
   snd (get_grouped_num_expressions st results grouping_columns mapping group_labels normalize' scaler)
   = st"
  by (auto simp: get_grouped_num_expressions_def Let_def split: sum.splits)

text \<open>
  Claim C7. Two successive calls with identical arguments should return identical results.
  A caller who passes its list \<open>["Group", "Subject"]\<close> with \<open>normalize=True\<close> and
  \<open>group_labels=True\<close> gets a table from the first call, which appends \<open>label\<close> to
  that list; the second call with the same list then looks for a column \<open>label\<close> in the
  input table and raises KeyError.
\<close>

theorem second_call_on_same_list_differs:
  "fst (get_grouped_num_expressions caller_store two_videos (CallerList 0) None True True
          (Some centering))
     = Inr [(''Group'', [Num 1, Num 1, Num 1]),
            (''Subject'', [Num 1, Num 1, Num 1]),
            (''label'', [Num 1, Num 2, Num 3]),
            (''expression_count'', [Num (2 / 3), Num (- (1 / 3)), Num (- (1 / 3))])]
   \<and> snd (get_grouped_num_expressions caller_store two_videos (CallerList 0) None True True
            (Some centering)) (CallerList 0)
     = [''Group'', ''Subject'', ''label'']
   \<and> fst (get_grouped_num_expressions
            (snd (get_grouped_num_expressions caller_store two_videos (CallerList 0) None True True
                    (Some centering)))
            two_videos (CallerList 0) None True True (Some centering))
     = Inl (KeyError ''label'')"
proof -
  have first: "get_grouped_num_expressions caller_store two_videos (CallerList 0) None True True
          (Some centering)
     = (Inr [(''Group'', [Num 1, Num 1, Num 1]),
            (''Subject'', [Num 1, Num 1, Num 1]),
            (''label'', [Num 1, Num 2, Num 3]),
            (''expression_count'', [Num (2 / 3), Num (- (1 / 3)), Num (- (1 / 3))])],
        caller_store(CallerList 0 := [''Group'', ''Subject'', ''label'']))"
    by (simp add: caller_store_def two_videos_def eval_defs grouped_defs)
  have second: "fst (get_grouped_num_expressions
            (caller_store(CallerList 0 := [''Group'', ''Subject'', ''label'']))
            two_videos (CallerList 0) None True True (Some centering))
     = Inl (KeyError ''label'')"
    by (simp add: caller_store_def two_videos_def eval_defs grouped_defs)
  show ?thesis
    unfolding first using second by simp
qed

end
